theory Spec2Isabelle
  imports Complex_Main "HOL-Library.Word" "HOL-Library.Monad_Syntax"
    "HOL-Library.Product_Lexorder"
begin

unbundle bit_operations_syntax

section \<open>Basic types\<close>

text \<open>
  \<open>gsize\<close> is the unsigned 64-bit size type, \<open>int\<close> the 32-bit signed C integer (a word
  read with \<open>sint\<close>). \<open>float\<close> and \<open>double\<close> values are modelled as real numbers: the
  functions below only copy, add and compare them, and a NaN is not a coordinate or a
  curve parameter.
\<close>

type_synonym gsize = "64 word"
type_synonym gint = "32 word"
type_synonym GskPathFlags = "32 word"

record graphene_point =
  point_x :: real
  point_y :: real

record graphene_rect =
  rect_origin :: graphene_point
  rect_width :: real
  rect_height :: real

definition graphene_rect_zero :: graphene_rect where
  "graphene_rect_zero =
     \<lparr>rect_origin = \<lparr>point_x = 0, point_y = 0\<rparr>, rect_width = 0, rect_height = 0\<rparr>"

text \<open>
  Modelled from the spec: \<open>GskBoundingBox\<close> with \<open>gsk_bounding_box_union\<close> and
  \<open>gsk_bounding_box_to_rect\<close>, of gskboundingboxprivate.h, whose text is missing: an
  axis-aligned box given by its minimal and maximal corner, the union being the smallest
  box around both.
\<close>

record GskBoundingBox =
  bb_min :: graphene_point
  bb_max :: graphene_point

definition gsk_bounding_box_union :: "GskBoundingBox \<Rightarrow> GskBoundingBox \<Rightarrow> GskBoundingBox" where
  "gsk_bounding_box_union a b =
     \<lparr>bb_min = \<lparr>point_x = min (point_x (bb_min a)) (point_x (bb_min b)),
                point_y = min (point_y (bb_min a)) (point_y (bb_min b))\<rparr>,
      bb_max = \<lparr>point_x = max (point_x (bb_max a)) (point_x (bb_max b)),
                point_y = max (point_y (bb_max a)) (point_y (bb_max b))\<rparr>\<rparr>"

definition gsk_bounding_box_to_rect :: "GskBoundingBox \<Rightarrow> graphene_rect" where
  "gsk_bounding_box_to_rect b =
     \<lparr>rect_origin = bb_min b,
      rect_width = point_x (bb_max b) - point_x (bb_min b),
      rect_height = point_y (bb_max b) - point_y (bb_min b)\<rparr>"

datatype GskFillRule = GSK_FILL_RULE_WINDING | GSK_FILL_RULE_EVEN_ODD

text \<open>
  \<open>GskRealPathPoint\<close>, a point on a path: the index of the contour, the index of the
  operation in the contour, and the parameter \<open>t\<close> on that operation.
\<close>

record GskRealPathPoint =
  pp_contour :: gsize
  pp_idx :: gsize
  pp_t :: real

section \<open>Contours and paths (gskpath.c)\<close>

text \<open>
  A \<open>GskContour\<close> is an object with a table of virtual functions that lives in
  gskcontour.c. The functions of the path and of the path point only call its queries,
  so a contour is the record of what these queries return: \<open>gsk_contour_get_flags\<close>,
  \<open>gsk_contour_get_n_ops\<close>, \<open>gsk_contour_get_bounds\<close>, \<open>gsk_contour_get_winding\<close> (a
  function of the test point) and \<open>gsk_contour_get_position\<close> (a function of the point
  on the path).
\<close>

record GskContour =
  gsk_contour_get_flags :: GskPathFlags
  gsk_contour_get_n_ops :: gsize
  gsk_contour_get_bounds :: GskBoundingBox
  gsk_contour_get_winding :: "graphene_point \<Rightarrow> gint"
  gsk_contour_get_position :: "GskRealPathPoint \<Rightarrow> graphene_point"

text \<open>
  \<open>struct _GskPath\<close>: the array \<open>contours[]\<close> with its length \<open>n_contours\<close> is a list.
\<close>

record GskPath =
  ref_count :: nat
  path_flags :: GskPathFlags
  contours :: "GskContour list"

definition n_contours :: "GskPath \<Rightarrow> nat" where
  "n_contours self = length (contours self)"

definition gsk_path_get_contour :: "GskPath \<Rightarrow> gsize \<Rightarrow> GskContour option" where
  "gsk_path_get_contour self i =
     (if unat i < n_contours self then Some (contours self ! unat i) else None)"

text \<open>
  The bits \<open>GSK_PATH_FLAT\<close> and \<open>GSK_PATH_CLOSED\<close> are declared in gskpathprivate.h,
  whose text is missing: the functions that use them take them as parameters \<open>FLAT\<close>
  and \<open>CLOSED\<close>.

  \<open>gsk_path_new_from_contours\<close>: the first loop of the source computes the flags (and the
  sizes of the allocation, which have no counterpart here), the second copies the
  contours in order.
\<close>

fun new_flags_loop :: "GskContour list \<Rightarrow> GskPathFlags \<Rightarrow> GskPathFlags" where
  "new_flags_loop [] flags = flags"
| "new_flags_loop (contour # l) flags =
     new_flags_loop l (flags AND gsk_contour_get_flags contour)"

definition gsk_path_new_from_contours ::
    "GskPathFlags \<Rightarrow> GskPathFlags \<Rightarrow> GskContour list \<Rightarrow> GskPath" where
  "gsk_path_new_from_contours FLAT CLOSED cs =
     \<lparr>ref_count = 1, path_flags = new_flags_loop cs (CLOSED OR FLAT), contours = cs\<rparr>"

definition gsk_path_get_flags :: "GskPath \<Rightarrow> GskPathFlags" where
  "gsk_path_get_flags self = path_flags self"

definition gsk_path_is_empty :: "GskPath \<Rightarrow> bool" where
  "gsk_path_is_empty self = (n_contours self = 0)"

definition gsk_path_is_closed :: "GskPathFlags \<Rightarrow> GskPath \<Rightarrow> bool" where
  "gsk_path_is_closed CLOSED self =
     (if n_contours self \<noteq> 1 then False
      else gsk_contour_get_flags (contours self ! 0) AND CLOSED \<noteq> 0)"

text \<open>
  \<open>gsk_path_get_bounds\<close> returns its boolean result together with the rectangle it
  writes to \<open>bounds\<close>. The loop over the contours from index 1 on is \<open>bounds_loop\<close>.
\<close>

fun bounds_loop :: "GskContour list \<Rightarrow> GskBoundingBox \<Rightarrow> GskBoundingBox" where
  "bounds_loop [] b = b"
| "bounds_loop (contour # l) b =
     bounds_loop l (gsk_bounding_box_union b (gsk_contour_get_bounds contour))"

definition gsk_path_get_bounds :: "GskPath \<Rightarrow> bool \<times> graphene_rect" where
  "gsk_path_get_bounds self =
     (case contours self of
        [] \<Rightarrow> (False, graphene_rect_zero)
      | c0 # l \<Rightarrow>
          (True, gsk_bounding_box_to_rect (bounds_loop l (gsk_contour_get_bounds c0))))"

text \<open>
  \<open>gsk_path_in_fill\<close>: \<open>winding\<close> is a C \<open>int\<close>; the addition is the machine addition.
  The function returns a \<open>gboolean\<close>, which is true when it is not zero.
\<close>

fun winding_loop :: "GskContour list \<Rightarrow> graphene_point \<Rightarrow> gint \<Rightarrow> gint" where
  "winding_loop [] point winding = winding"
| "winding_loop (contour # l) point winding =
     winding_loop l point (winding + gsk_contour_get_winding contour point)"

definition gsk_path_in_fill :: "GskPath \<Rightarrow> graphene_point \<Rightarrow> GskFillRule \<Rightarrow> bool" where
  "gsk_path_in_fill self point fill_rule =
     (let winding = winding_loop (contours self) point 0
      in case fill_rule of
           GSK_FILL_RULE_EVEN_ODD \<Rightarrow> winding AND 1 \<noteq> 0
         | GSK_FILL_RULE_WINDING \<Rightarrow> winding \<noteq> 0)"

text \<open>
  \<open>gsk_path_get_start_point\<close> and \<open>gsk_path_get_end_point\<close> return \<open>FALSE\<close> and leave
  \<open>result\<close> alone (\<open>None\<close>), or fill it.
\<close>

definition gsk_path_get_start_point :: "GskPath \<Rightarrow> GskRealPathPoint option" where
  "gsk_path_get_start_point self =
     (if n_contours self = 0 then None
      else Some \<lparr>pp_contour = 0, pp_idx = 1, pp_t = 0\<rparr>)"

definition gsk_path_get_end_point :: "GskPath \<Rightarrow> GskRealPathPoint option" where
  "gsk_path_get_end_point self =
     (if n_contours self = 0 then None
      else Some \<lparr>pp_contour = of_nat (n_contours self) - 1,
                 pp_idx = gsk_contour_get_n_ops (contours self ! (n_contours self - 1)) - 1,
                 pp_t = 1\<rparr>)"

section \<open>Points on a path (gskpathpoint.c)\<close>

definition gsk_path_point_equal :: "GskRealPathPoint \<Rightarrow> GskRealPathPoint \<Rightarrow> bool" where
  "gsk_path_point_equal p1 p2 =
     (if pp_contour p1 = pp_contour p2 then
        (if (pp_idx p1 = pp_idx p2 \<and> pp_t p1 = pp_t p2) \<or>
            (pp_idx p1 + 1 = pp_idx p2 \<and> pp_t p1 = 1 \<and> pp_t p2 = 0) \<or>
            (pp_idx p1 = pp_idx p2 + 1 \<and> pp_t p1 = 0 \<and> pp_t p2 = 1)
         then True else False)
      else False)"

definition gsk_path_point_compare :: "GskRealPathPoint \<Rightarrow> GskRealPathPoint \<Rightarrow> int" where
  "gsk_path_point_compare p1 p2 =
     (if gsk_path_point_equal p1 p2 then 0
      else if pp_contour p1 < pp_contour p2 then -1
      else if pp_contour p1 > pp_contour p2 then 1
      else if pp_idx p1 < pp_idx p2 then -1
      else if pp_idx p1 > pp_idx p2 then 1
      else if pp_t p1 < pp_t p2 then -1
      else if pp_t p1 > pp_t p2 then 1
      else 0)"

text \<open>
  \<open>gsk_path_point_get_position\<close> writes the position to its out parameter; it returns
  without writing (\<open>None\<close>) when the contour index is not one of the path.
\<close>

definition gsk_path_point_get_position ::
    "GskRealPathPoint \<Rightarrow> GskPath \<Rightarrow> graphene_point option" where
  "gsk_path_point_get_position point path =
     (if \<not> unat (pp_contour point) < n_contours path then None
      else (case gsk_path_get_contour path (pp_contour point) of
              None \<Rightarrow> None
            | Some contour \<Rightarrow> Some (gsk_contour_get_position contour point)))"

section \<open>The path parser (gskpath.c)\<close>

text \<open>
  A C string is the list of its bytes before the terminating NUL, and a pointer into it
  is the suffix it points to: \<open>*p\<close> is the first character of the suffix (NUL at the
  end), \<open>p++\<close> is its tail.

  \<open>g_ascii_isspace\<close> and \<open>g_ascii_strtod\<close> belong to GLib. The parser takes them as
  parameters: \<open>g_ascii_strtod G p\<close> is the value read at \<open>p\<close> and the number of
  characters between \<open>p\<close> and the end pointer \<open>e\<close> that \<open>g_ascii_strtod (p, &e)\<close> sets.
\<close>

record glib =
  g_ascii_isspace :: "char \<Rightarrow> bool"
  g_ascii_strtod :: "string \<Rightarrow> real \<times> nat"

definition cstring :: "string \<Rightarrow> string" where
  "cstring bytes = takeWhile (\<lambda>c. c \<noteq> CHR 0x00) bytes"

definition peek :: "string \<Rightarrow> char" where
  "peek p = (case p of [] \<Rightarrow> CHR 0x00 | c # _ \<Rightarrow> c)"

text \<open>
  Modelled from the spec: the path builder of gskpathbuilder.c, a collaborator that
  takes the drawing calls and makes the path from them when it is finished. What the
  parser does with it is the sequence of calls it makes: a builder is the list of the
  calls it has received, and the list that \<open>gsk_path_parse\<close> returns stands for the
  path that \<open>gsk_path_builder_free_to_path\<close> makes of it. On \<open>error\<close> the builder is
  dropped and \<open>NULL\<close> is returned (\<open>None\<close>).
\<close>

datatype builder_call =
    MOVE_TO real real
  | LINE_TO real real
  | QUAD_TO real real real real
  | CUBIC_TO real real real real real real
  | SVG_ARC_TO real real real bool bool real real
  | ARC_TO real real real real
  | CLOSE

type_synonym GskPathBuilder = "builder_call list"

definition gsk_path_builder_new :: GskPathBuilder where
  "gsk_path_builder_new = []"

definition gsk_path_builder_move_to :: "GskPathBuilder \<Rightarrow> real \<Rightarrow> real \<Rightarrow> GskPathBuilder" where
  "gsk_path_builder_move_to builder x y = builder @ [MOVE_TO x y]"

definition gsk_path_builder_line_to :: "GskPathBuilder \<Rightarrow> real \<Rightarrow> real \<Rightarrow> GskPathBuilder" where
  "gsk_path_builder_line_to builder x y = builder @ [LINE_TO x y]"

definition gsk_path_builder_quad_to ::
    "GskPathBuilder \<Rightarrow> real \<Rightarrow> real \<Rightarrow> real \<Rightarrow> real \<Rightarrow> GskPathBuilder" where
  "gsk_path_builder_quad_to builder x1 y1 x2 y2 = builder @ [QUAD_TO x1 y1 x2 y2]"

definition gsk_path_builder_cubic_to ::
    "GskPathBuilder \<Rightarrow> real \<Rightarrow> real \<Rightarrow> real \<Rightarrow> real \<Rightarrow> real \<Rightarrow> real \<Rightarrow> GskPathBuilder" where
  "gsk_path_builder_cubic_to builder x0 y0 x1 y1 x2 y2 = builder @ [CUBIC_TO x0 y0 x1 y1 x2 y2]"

definition gsk_path_builder_svg_arc_to ::
    "GskPathBuilder \<Rightarrow> real \<Rightarrow> real \<Rightarrow> real \<Rightarrow> bool \<Rightarrow> bool \<Rightarrow> real \<Rightarrow> real \<Rightarrow> GskPathBuilder" where
  "gsk_path_builder_svg_arc_to builder rx ry x_axis_rotation large_arc sweep x1 y1 =
     builder @ [SVG_ARC_TO rx ry x_axis_rotation large_arc sweep x1 y1]"

definition gsk_path_builder_arc_to ::
    "GskPathBuilder \<Rightarrow> real \<Rightarrow> real \<Rightarrow> real \<Rightarrow> real \<Rightarrow> GskPathBuilder" where
  "gsk_path_builder_arc_to builder x1 y1 x2 y2 = builder @ [ARC_TO x1 y1 x2 y2]"

definition gsk_path_builder_close :: "GskPathBuilder \<Rightarrow> GskPathBuilder" where
  "gsk_path_builder_close builder = builder @ [CLOSE]"

subsection \<open>The scanning functions\<close>

text \<open>
  A scanning function that returns \<open>FALSE\<close> returns \<open>None\<close> here; every caller then
  jumps to \<open>error\<close>, so where the source leaves \<open>*p\<close> in that case is not observed.
  \<open>parse_command\<close> is the exception: the loop goes on after it fails, with the white
  space skipped, so it returns its result, the new \<open>p\<close> and the new \<open>cmd\<close>.
\<close>

fun skip_whitespace :: "glib \<Rightarrow> string \<Rightarrow> string" where
  "skip_whitespace G [] = []"
| "skip_whitespace G (c # p) = (if g_ascii_isspace G c then skip_whitespace G p else c # p)"

definition skip_optional_comma :: "glib \<Rightarrow> string \<Rightarrow> string" where
  "skip_optional_comma G p =
     (let p1 = skip_whitespace G p in if peek p1 = CHR '','' then tl p1 else p1)"

definition parse_number :: "glib \<Rightarrow> string \<Rightarrow> (real \<times> string) option" where
  "parse_number G p =
     (let (c, n) = g_ascii_strtod G p; e = drop n p
      in if e = p then None else Some (c, skip_optional_comma G e))"

definition parse_coordinate :: "glib \<Rightarrow> string \<Rightarrow> (real \<times> string) option" where
  "parse_coordinate G p = parse_number G p"

definition parse_coordinate_pair :: "glib \<Rightarrow> string \<Rightarrow> (real \<times> real \<times> string) option" where
  "parse_coordinate_pair G p =
     (case parse_coordinate G p of
        None \<Rightarrow> None
      | Some (xx, p1) \<Rightarrow>
          (case parse_coordinate G p1 of
             None \<Rightarrow> None
           | Some (yy, p2) \<Rightarrow> Some (xx, yy, p2)))"

definition parse_nonnegative_number :: "glib \<Rightarrow> string \<Rightarrow> (real \<times> string) option" where
  "parse_nonnegative_number G p =
     (case parse_number G p of
        None \<Rightarrow> None
      | Some (n, p1) \<Rightarrow> if n < 0 then None else Some (n, p1))"

definition strchr_checked :: "string \<Rightarrow> char \<Rightarrow> bool" where
  "strchr_checked str c = (if c = CHR 0x00 then False else c \<in> set str)"

definition parse_flag :: "glib \<Rightarrow> string \<Rightarrow> (bool \<times> string) option" where
  "parse_flag G p =
     (let p1 = skip_whitespace G p
      in if strchr_checked ''01'' (peek p1)
         then Some (peek p1 = CHR ''1'', skip_optional_comma G (tl p1))
         else None)"

definition parse_command :: "glib \<Rightarrow> string \<Rightarrow> char \<Rightarrow> bool \<times> string \<times> char" where
  "parse_command G p cmd =
     (let allowed = (if cmd = CHR ''X'' then ''mM'' else ''mMhHvVzZlLcCsStTqQaAeE'');
          p1 = skip_whitespace G p
      in if strchr_checked allowed (peek p1) then (True, tl p1, peek p1)
         else (False, p1, cmd))"

subsection \<open>The state of \<open>gsk_path_parse\<close> and the cases of its switch\<close>

record parser_state =
  ps_builder :: GskPathBuilder
  ps_x :: real
  ps_y :: real
  ps_prev_x1 :: real
  ps_prev_y1 :: real
  ps_path_x :: real
  ps_path_y :: real
  ps_p :: string
  ps_cmd :: char
  ps_after_comma :: bool

text \<open>
  Every drawing case starts a new contour at the current point when the previous command
  closed one: \<open>if (_strchr ("zZ", prev_cmd)) { move_to (x, y); path_x = x; path_y = y; }\<close>.
\<close>

definition move_after_close :: "char \<Rightarrow> parser_state \<Rightarrow> parser_state" where
  "move_after_close prev_cmd st =
     (if strchr_checked ''zZ'' prev_cmd
      then st\<lparr>ps_builder := gsk_path_builder_move_to (ps_builder st) (ps_x st) (ps_y st),
              ps_path_x := ps_x st, ps_path_y := ps_y st\<rparr>
      else st)"

definition case_Z :: "parser_state \<Rightarrow> bool \<Rightarrow> parser_state option" where
  "case_Z st repeat =
     (if repeat then None
      else Some (st\<lparr>ps_builder := gsk_path_builder_close (ps_builder st),
                    ps_x := ps_path_x st, ps_y := ps_path_y st\<rparr>))"

definition case_M :: "glib \<Rightarrow> parser_state \<Rightarrow> char \<Rightarrow> bool \<Rightarrow> parser_state option" where
  "case_M G st prev_cmd repeat = do {
     (a, b, p) \<leftarrow> parse_coordinate_pair G (ps_p st);
     let x1 = (if ps_cmd st = CHR ''m'' then a + ps_x st else a);
     let y1 = (if ps_cmd st = CHR ''m'' then b + ps_y st else b);
     let st1 =
       (if repeat then st\<lparr>ps_builder := gsk_path_builder_line_to (ps_builder st) x1 y1\<rparr>
        else (let st2 = st\<lparr>ps_builder := gsk_path_builder_move_to (ps_builder st) x1 y1\<rparr>
              in if strchr_checked ''zZX'' prev_cmd
                 then st2\<lparr>ps_path_x := x1, ps_path_y := y1\<rparr> else st2));
     Some (st1\<lparr>ps_x := x1, ps_y := y1, ps_p := p\<rparr>)
   }"

definition case_L :: "glib \<Rightarrow> parser_state \<Rightarrow> char \<Rightarrow> parser_state option" where
  "case_L G st prev_cmd = do {
     (a, b, p) \<leftarrow> parse_coordinate_pair G (ps_p st);
     let x1 = (if ps_cmd st = CHR ''l'' then a + ps_x st else a);
     let y1 = (if ps_cmd st = CHR ''l'' then b + ps_y st else b);
     let st1 = move_after_close prev_cmd st;
     Some (st1\<lparr>ps_builder := gsk_path_builder_line_to (ps_builder st1) x1 y1,
               ps_x := x1, ps_y := y1, ps_p := p\<rparr>)
   }"

definition case_H :: "glib \<Rightarrow> parser_state \<Rightarrow> char \<Rightarrow> parser_state option" where
  "case_H G st prev_cmd = do {
     (a, p) \<leftarrow> parse_coordinate G (ps_p st);
     let x1 = (if ps_cmd st = CHR ''h'' then a + ps_x st else a);
     let st1 = move_after_close prev_cmd st;
     Some (st1\<lparr>ps_builder := gsk_path_builder_line_to (ps_builder st1) x1 (ps_y st),
               ps_x := x1, ps_p := p\<rparr>)
   }"

definition case_V :: "glib \<Rightarrow> parser_state \<Rightarrow> char \<Rightarrow> parser_state option" where
  "case_V G st prev_cmd = do {
     (b, p) \<leftarrow> parse_coordinate G (ps_p st);
     let y1 = (if ps_cmd st = CHR ''v'' then b + ps_y st else b);
     let st1 = move_after_close prev_cmd st;
     Some (st1\<lparr>ps_builder := gsk_path_builder_line_to (ps_builder st1) (ps_x st) y1,
               ps_y := y1, ps_p := p\<rparr>)
   }"

definition case_C :: "glib \<Rightarrow> parser_state \<Rightarrow> char \<Rightarrow> parser_state option" where
  "case_C G st prev_cmd = do {
     (a0, b0, p0) \<leftarrow> parse_coordinate_pair G (ps_p st);
     (a1, b1, p1) \<leftarrow> parse_coordinate_pair G p0;
     (a2, b2, p) \<leftarrow> parse_coordinate_pair G p1;
     let rel = (ps_cmd st = CHR ''c'');
     let x0 = (if rel then a0 + ps_x st else a0);
     let y0 = (if rel then b0 + ps_y st else b0);
     let x1 = (if rel then a1 + ps_x st else a1);
     let y1 = (if rel then b1 + ps_y st else b1);
     let x2 = (if rel then a2 + ps_x st else a2);
     let y2 = (if rel then b2 + ps_y st else b2);
     let st1 = move_after_close prev_cmd st;
     Some (st1\<lparr>ps_builder := gsk_path_builder_cubic_to (ps_builder st1) x0 y0 x1 y1 x2 y2,
               ps_prev_x1 := x1, ps_prev_y1 := y1, ps_x := x2, ps_y := y2, ps_p := p\<rparr>)
   }"

definition case_S :: "glib \<Rightarrow> parser_state \<Rightarrow> char \<Rightarrow> parser_state option" where
  "case_S G st prev_cmd = do {
     (a1, b1, p1) \<leftarrow> parse_coordinate_pair G (ps_p st);
     (a2, b2, p) \<leftarrow> parse_coordinate_pair G p1;
     let rel = (ps_cmd st = CHR ''s'');
     let x1 = (if rel then a1 + ps_x st else a1);
     let y1 = (if rel then b1 + ps_y st else b1);
     let x2 = (if rel then a2 + ps_x st else a2);
     let y2 = (if rel then b2 + ps_y st else b2);
     let x0 = (if strchr_checked ''CcSs'' prev_cmd then 2 * ps_x st - ps_prev_x1 st else ps_x st);
     let y0 = (if strchr_checked ''CcSs'' prev_cmd then 2 * ps_y st - ps_prev_y1 st else ps_y st);
     let st1 = move_after_close prev_cmd st;
     Some (st1\<lparr>ps_builder := gsk_path_builder_cubic_to (ps_builder st1) x0 y0 x1 y1 x2 y2,
               ps_prev_x1 := x1, ps_prev_y1 := y1, ps_x := x2, ps_y := y2, ps_p := p\<rparr>)
   }"

definition case_Q :: "glib \<Rightarrow> parser_state \<Rightarrow> char \<Rightarrow> parser_state option" where
  "case_Q G st prev_cmd = do {
     (a1, b1, p1) \<leftarrow> parse_coordinate_pair G (ps_p st);
     (a2, b2, p) \<leftarrow> parse_coordinate_pair G p1;
     let rel = (ps_cmd st = CHR ''q'');
     let x1 = (if rel then a1 + ps_x st else a1);
     let y1 = (if rel then b1 + ps_y st else b1);
     let x2 = (if rel then a2 + ps_x st else a2);
     let y2 = (if rel then b2 + ps_y st else b2);
     let st1 = move_after_close prev_cmd st;
     Some (st1\<lparr>ps_builder := gsk_path_builder_quad_to (ps_builder st1) x1 y1 x2 y2,
               ps_prev_x1 := x1, ps_prev_y1 := y1, ps_x := x2, ps_y := y2, ps_p := p\<rparr>)
   }"

definition case_T :: "glib \<Rightarrow> parser_state \<Rightarrow> char \<Rightarrow> parser_state option" where
  "case_T G st prev_cmd = do {
     (a2, b2, p) \<leftarrow> parse_coordinate_pair G (ps_p st);
     let rel = (ps_cmd st = CHR ''t'');
     let x2 = (if rel then a2 + ps_x st else a2);
     let y2 = (if rel then b2 + ps_y st else b2);
     let x1 = (if strchr_checked ''QqTt'' prev_cmd then 2 * ps_x st - ps_prev_x1 st else ps_x st);
     let y1 = (if strchr_checked ''QqTt'' prev_cmd then 2 * ps_y st - ps_prev_y1 st else ps_y st);
     let st1 = move_after_close prev_cmd st;
     Some (st1\<lparr>ps_builder := gsk_path_builder_quad_to (ps_builder st1) x1 y1 x2 y2,
               ps_prev_x1 := x1, ps_prev_y1 := y1, ps_x := x2, ps_y := y2, ps_p := p\<rparr>)
   }"

definition case_A :: "glib \<Rightarrow> parser_state \<Rightarrow> char \<Rightarrow> parser_state option" where
  "case_A G st prev_cmd = do {
     (rx, p1) \<leftarrow> parse_nonnegative_number G (ps_p st);
     (ry, p2) \<leftarrow> parse_nonnegative_number G p1;
     (x_axis_rotation, p3) \<leftarrow> parse_number G p2;
     (large_arc, p4) \<leftarrow> parse_flag G p3;
     (sweep, p5) \<leftarrow> parse_flag G p4;
     (a, b, p) \<leftarrow> parse_coordinate_pair G p5;
     let x1 = (if ps_cmd st = CHR ''a'' then a + ps_x st else a);
     let y1 = (if ps_cmd st = CHR ''a'' then b + ps_y st else b);
     let st1 = move_after_close prev_cmd st;
     Some (st1\<lparr>ps_builder := gsk_path_builder_svg_arc_to (ps_builder st1)
                                rx ry x_axis_rotation large_arc sweep x1 y1,
               ps_x := x1, ps_y := y1, ps_p := p\<rparr>)
   }"

definition case_E :: "glib \<Rightarrow> parser_state \<Rightarrow> char \<Rightarrow> parser_state option" where
  "case_E G st prev_cmd = do {
     (a1, b1, p1) \<leftarrow> parse_coordinate_pair G (ps_p st);
     (a2, b2, p) \<leftarrow> parse_coordinate_pair G p1;
     let rel = (ps_cmd st = CHR ''e'');
     let x1 = (if rel then a1 + ps_x st else a1);
     let y1 = (if rel then b1 + ps_y st else b1);
     let x2 = (if rel then a2 + ps_x st else a2);
     let y2 = (if rel then b2 + ps_y st else b2);
     let st1 = move_after_close prev_cmd st;
     Some (st1\<lparr>ps_builder := gsk_path_builder_arc_to (ps_builder st1) x1 y1 x2 y2,
               ps_prev_x1 := x1, ps_prev_y1 := y1, ps_x := x2, ps_y := y2, ps_p := p\<rparr>)
   }"

text \<open>The \<open>switch (cmd)\<close>; \<open>None\<close> is \<open>goto error\<close>.\<close>

definition switch_cmd :: "glib \<Rightarrow> parser_state \<Rightarrow> char \<Rightarrow> bool \<Rightarrow> parser_state option" where
  "switch_cmd G st prev_cmd repeat =
     (let c = ps_cmd st
      in if c = CHR ''X'' then None
         else if c = CHR ''Z'' \<or> c = CHR ''z'' then case_Z st repeat
         else if c = CHR ''M'' \<or> c = CHR ''m'' then case_M G st prev_cmd repeat
         else if c = CHR ''L'' \<or> c = CHR ''l'' then case_L G st prev_cmd
         else if c = CHR ''H'' \<or> c = CHR ''h'' then case_H G st prev_cmd
         else if c = CHR ''V'' \<or> c = CHR ''v'' then case_V G st prev_cmd
         else if c = CHR ''C'' \<or> c = CHR ''c'' then case_C G st prev_cmd
         else if c = CHR ''S'' \<or> c = CHR ''s'' then case_S G st prev_cmd
         else if c = CHR ''Q'' \<or> c = CHR ''q'' then case_Q G st prev_cmd
         else if c = CHR ''T'' \<or> c = CHR ''t'' then case_T G st prev_cmd
         else if c = CHR ''A'' \<or> c = CHR ''a'' then case_A G st prev_cmd
         else if c = CHR ''E'' \<or> c = CHR ''e'' then case_E G st prev_cmd
         else None)"

text \<open>
  \<open>after_comma = (p > string) && p[-1] == ','\<close>: \<open>p\<close> is a suffix of \<open>string\<close>, so it
  is past the start when it is shorter, and \<open>p[-1]\<close> is the character in front of it.
\<close>

definition after_comma_at :: "string \<Rightarrow> string \<Rightarrow> bool" where
  "after_comma_at string p =
     (length p < length string \<and> string ! (length string - length p - 1) = CHR '','')"

text \<open>One run of the body of \<open>while (*p)\<close>.\<close>

definition parse_iteration :: "glib \<Rightarrow> string \<Rightarrow> parser_state \<Rightarrow> parser_state option" where
  "parse_iteration G string st =
     (let prev_cmd = ps_cmd st;
          (found, p1, cmd1) = parse_command G (ps_p st) (ps_cmd st);
          repeat = \<not> found;
          st1 = st\<lparr>ps_p := p1, ps_cmd := cmd1\<rparr>
      in if ps_after_comma st \<and> \<not> repeat then None
         else (case switch_cmd G st1 prev_cmd repeat of
                 None \<Rightarrow> None
               | Some st2 \<Rightarrow> Some (st2\<lparr>ps_after_comma := after_comma_at string (ps_p st2)\<rparr>)))"

subsection \<open>Every run of the loop body consumes input\<close>

lemma skip_whitespace_length: "length (skip_whitespace G p) \<le> length p"
  by (induction p) (simp_all add: le_SucI)

lemma skip_optional_comma_length: "length (skip_optional_comma G p) \<le> length p"
  using skip_whitespace_length [of G p]
  by (auto simp add: skip_optional_comma_def Let_def)

lemma parse_number_progress:
  assumes "parse_number G p = Some (c, p')"
  shows "length p' < length p"
proof -
  obtain v n where vn: "g_ascii_strtod G p = (v, n)" by (cases "g_ascii_strtod G p")
  with assms have ne: "drop n p \<noteq> p" and p': "p' = skip_optional_comma G (drop n p)"
    by (auto simp add: parse_number_def Let_def split: if_splits)
  from ne have "n \<noteq> 0" by (cases n) simp_all
  moreover from ne have "p \<noteq> []" by auto
  ultimately
  have "length (drop n p) < length p" by simp
  with skip_optional_comma_length [of G "drop n p"] p' show ?thesis by simp
qed

lemma parse_coordinate_progress:
  "parse_coordinate G p = Some (c, p') \<Longrightarrow> length p' < length p"
  by (simp add: parse_coordinate_def parse_number_progress)

lemma parse_coordinate_pair_progress:
  assumes "parse_coordinate_pair G p = Some (a, b, p')"
  shows "length p' < length p"
proof -
  from assms obtain p1 where 1: "parse_coordinate G p = Some (a, p1)"
    and 2: "parse_coordinate G p1 = Some (b, p')"
    by (auto simp add: parse_coordinate_pair_def split: option.splits)
  from parse_coordinate_progress [OF 1] parse_coordinate_progress [OF 2]
  show ?thesis by simp
qed

lemma parse_nonnegative_number_progress:
  "parse_nonnegative_number G p = Some (c, p') \<Longrightarrow> length p' < length p"
  by (auto simp add: parse_nonnegative_number_def split: option.splits if_splits
        dest: parse_number_progress)

lemma parse_flag_progress:
  assumes "parse_flag G p = Some (f, p')"
  shows "length p' < length p"
proof -
  let ?q = "skip_whitespace G p"
  from assms have m: "strchr_checked ''01'' (peek ?q)" and p': "p' = skip_optional_comma G (tl ?q)"
    by (auto simp add: parse_flag_def Let_def split: if_splits)
  from m have "?q \<noteq> []" by (auto simp add: strchr_checked_def peek_def)
  then have "length (tl ?q) < length ?q" by simp
  with skip_optional_comma_length [of G "tl ?q"] skip_whitespace_length [of G p] p'
  show ?thesis by simp
qed

lemma parse_command_cases:
  assumes "parse_command G p cmd = (found, p', cmd')"
  obtains (hit) "found" "skip_whitespace G p \<noteq> []" "p' = tl (skip_whitespace G p)"
      "cmd' = peek (skip_whitespace G p)"
    | (miss) "\<not> found" "p' = skip_whitespace G p" "cmd' = cmd"
proof (cases found)
  case True
  with assms have m: "strchr_checked (if cmd = CHR ''X'' then ''mM''
      else ''mMhHvVzZlLcCsStTqQaAeE'') (peek (skip_whitespace G p))"
    and r: "p' = tl (skip_whitespace G p)" "cmd' = peek (skip_whitespace G p)"
    by (auto simp add: parse_command_def Let_def split: if_splits)
  from m have "peek (skip_whitespace G p) \<noteq> CHR 0x00"
    by (auto simp add: strchr_checked_def split: if_splits)
  then have "skip_whitespace G p \<noteq> []" by (auto simp add: peek_def)
  with True r show ?thesis by (intro hit)
next
  case False
  with assms have "p' = skip_whitespace G p" "cmd' = cmd"
    by (auto simp add: parse_command_def Let_def split: if_splits)
  with False show ?thesis by (intro miss)
qed

lemma parse_command_progress:
  assumes "parse_command G p cmd = (found, p', cmd')"
  shows "length p' \<le> length p" and "found \<Longrightarrow> length p' < length p"
    and "\<not> found \<Longrightarrow> cmd' = cmd"
proof -
  have q: "length (skip_whitespace G p) \<le> length p" by (rule skip_whitespace_length)
  from assms show "length p' \<le> length p"
  proof (cases rule: parse_command_cases)
    case hit
    with q show ?thesis by simp
  next
    case miss
    with q show ?thesis by simp
  qed
  from assms show "found \<Longrightarrow> length p' < length p"
  proof (cases rule: parse_command_cases)
    case hit
    then have "length p' < length (skip_whitespace G p)" by simp
    with q show ?thesis by simp
  next
    case miss
    then show "found \<Longrightarrow> length p' < length p" by simp
  qed
  from assms show "\<not> found \<Longrightarrow> cmd' = cmd"
    by (cases rule: parse_command_cases) simp_all
qed

lemma move_after_close_p [simp]: "ps_p (move_after_close prev_cmd st) = ps_p st"
  by (simp add: move_after_close_def)

lemma case_Z_progress:
  "case_Z st repeat = Some st' \<Longrightarrow> \<not> repeat \<and> ps_p st' = ps_p st"
  by (auto simp add: case_Z_def split: if_splits)

lemma case_M_progress:
  "case_M G st prev_cmd repeat = Some st' \<Longrightarrow> length (ps_p st') < length (ps_p st)"
  by (auto simp add: case_M_def Let_def bind_eq_Some_conv dest: parse_coordinate_pair_progress)

lemma case_L_progress:
  "case_L G st prev_cmd = Some st' \<Longrightarrow> length (ps_p st') < length (ps_p st)"
  by (auto simp add: case_L_def Let_def bind_eq_Some_conv dest: parse_coordinate_pair_progress)

lemma case_H_progress:
  "case_H G st prev_cmd = Some st' \<Longrightarrow> length (ps_p st') < length (ps_p st)"
  by (auto simp add: case_H_def Let_def bind_eq_Some_conv dest: parse_coordinate_progress)

lemma case_V_progress:
  "case_V G st prev_cmd = Some st' \<Longrightarrow> length (ps_p st') < length (ps_p st)"
  by (auto simp add: case_V_def Let_def bind_eq_Some_conv dest: parse_coordinate_progress)

lemma case_C_progress:
  "case_C G st prev_cmd = Some st' \<Longrightarrow> length (ps_p st') < length (ps_p st)"
  by (auto simp add: case_C_def Let_def bind_eq_Some_conv dest!: parse_coordinate_pair_progress)

lemma case_S_progress:
  "case_S G st prev_cmd = Some st' \<Longrightarrow> length (ps_p st') < length (ps_p st)"
  by (auto simp add: case_S_def Let_def bind_eq_Some_conv dest!: parse_coordinate_pair_progress)

lemma case_Q_progress:
  "case_Q G st prev_cmd = Some st' \<Longrightarrow> length (ps_p st') < length (ps_p st)"
  by (auto simp add: case_Q_def Let_def bind_eq_Some_conv dest!: parse_coordinate_pair_progress)

lemma case_T_progress:
  "case_T G st prev_cmd = Some st' \<Longrightarrow> length (ps_p st') < length (ps_p st)"
  by (auto simp add: case_T_def Let_def bind_eq_Some_conv dest!: parse_coordinate_pair_progress)

lemma case_A_progress:
  "case_A G st prev_cmd = Some st' \<Longrightarrow> length (ps_p st') < length (ps_p st)"
  by (auto simp add: case_A_def Let_def bind_eq_Some_conv
        dest!: parse_coordinate_pair_progress parse_nonnegative_number_progress
          parse_number_progress parse_flag_progress)

lemma case_E_progress:
  "case_E G st prev_cmd = Some st' \<Longrightarrow> length (ps_p st') < length (ps_p st)"
  by (auto simp add: case_E_def Let_def bind_eq_Some_conv dest!: parse_coordinate_pair_progress)

lemmas case_progress = case_M_progress case_L_progress case_H_progress case_V_progress
  case_C_progress case_S_progress case_Q_progress case_T_progress case_A_progress
  case_E_progress

lemma switch_cmd_progress:
  assumes "switch_cmd G st prev_cmd repeat = Some st'"
  shows "length (ps_p st') \<le> length (ps_p st)"
    and "repeat \<Longrightarrow> length (ps_p st') < length (ps_p st)"
  using assms
  by (auto simp add: switch_cmd_def Let_def split: if_splits
        dest: case_Z_progress dest!: case_progress)

lemma parse_iteration_progress:
  assumes "parse_iteration G string st = Some st'"
  shows "length (ps_p st') < length (ps_p st)"
proof -
  obtain found p1 cmd1 where pc: "parse_command G (ps_p st) (ps_cmd st) = (found, p1, cmd1)"
    by (cases "parse_command G (ps_p st) (ps_cmd st)")
  with assms obtain st2 where
    sw: "switch_cmd G (st\<lparr>ps_p := p1, ps_cmd := cmd1\<rparr>) (ps_cmd st) (\<not> found) = Some st2"
    and st': "st' = st2\<lparr>ps_after_comma := after_comma_at string (ps_p st2)\<rparr>"
    by (auto simp add: parse_iteration_def Let_def split: if_splits option.splits)
  from switch_cmd_progress [OF sw] have
    a: "length (ps_p st2) \<le> length p1" and b: "\<not> found \<Longrightarrow> length (ps_p st2) < length p1"
    by simp_all
  from parse_command_progress [OF pc] a b st' show ?thesis
    by (cases found) auto
qed

subsection \<open>The loop and \<open>gsk_path_parse\<close>\<close>

function parse_loop :: "glib \<Rightarrow> string \<Rightarrow> parser_state \<Rightarrow> GskPathBuilder option" where
  "parse_loop G string st =
     (if ps_p st \<noteq> [] then
        (case parse_iteration G string st of
           None \<Rightarrow> None
         | Some st' \<Rightarrow> parse_loop G string st')
      else if ps_after_comma st then None
      else Some (ps_builder st))"
  by pat_completeness auto
termination
  by (relation "measure (\<lambda>(G, string, st). length (ps_p st))")
     (simp_all add: parse_iteration_progress)

declare parse_loop.simps [simp del]

definition parser_init :: "string \<Rightarrow> parser_state" where
  "parser_init string =
     \<lparr>ps_builder = gsk_path_builder_new, ps_x = 0, ps_y = 0, ps_prev_x1 = 0, ps_prev_y1 = 0,
      ps_path_x = 0, ps_path_y = 0, ps_p = string, ps_cmd = CHR ''X'', ps_after_comma = False\<rparr>"

definition gsk_path_parse :: "glib \<Rightarrow> string \<Rightarrow> GskPathBuilder option" where
  "gsk_path_parse G bytes = (let string = cstring bytes in parse_loop G string (parser_init string))"

section \<open>Notions used in the statements\<close>

text \<open>
  The winding contributions of all contours of a path at a point, summed up as integers
  in contour order.
\<close>

definition winding_sum :: "GskPath \<Rightarrow> graphene_point \<Rightarrow> int" where
  "winding_sum self point = (\<Sum>c\<leftarrow>contours self. sint (gsk_contour_get_winding c point))"

text \<open>
  A location is the triple of its contour index, its segment index and its parameter.
  Two locations are the two representations of a segment boundary when the first is
  the end (\<open>t = 1\<close>) of a segment and the second the start (\<open>t = 0\<close>) of the next
  segment of the same contour.
\<close>

definition location_triple :: "GskRealPathPoint \<Rightarrow> gsize \<times> gsize \<times> real" where
  "location_triple p = (pp_contour p, pp_idx p, pp_t p)"

definition segment_boundary :: "GskRealPathPoint \<Rightarrow> GskRealPathPoint \<Rightarrow> bool" where
  "segment_boundary p q =
     (pp_contour q = pp_contour p \<and> pp_idx q = pp_idx p + 1 \<and> pp_t p = 1 \<and> pp_t q = 0)"

text \<open>
  The parameter of a location lies in the closed unit interval, and its segment index
  has a successor (it is below the number of operations of its contour, a \<open>gsize\<close>).
\<close>

definition location_valid :: "GskRealPathPoint \<Rightarrow> bool" where
  "location_valid p = (0 \<le> pp_t p \<and> pp_t p \<le> 1 \<and> pp_idx p + 1 \<noteq> 0)"

text \<open>
  The position of a valid location along its contour: equal locations have the same
  key, and the comparison orders the keys.
\<close>

definition location_key :: "GskRealPathPoint \<Rightarrow> gsize \<times> real" where
  "location_key p = (pp_contour p, real (unat (pp_idx p)) + pp_t p)"

definition three_way :: "'a::linorder \<Rightarrow> 'a \<Rightarrow> int" where
  "three_way a b = (if a < b then -1 else if b < a then 1 else 0)"

text \<open>The comparison of two locations of one contour, the indices read as numbers.\<close>

definition compare_nat :: "nat \<Rightarrow> real \<Rightarrow> nat \<Rightarrow> real \<Rightarrow> int" where
  "compare_nat a s b t =
     (if (a = b \<and> s = t) \<or> (Suc a = b \<and> s = 1 \<and> t = 0) \<or> (a = Suc b \<and> s = 0 \<and> t = 1) then 0
      else if a < b then -1 else if b < a then 1
      else if s < t then -1 else if t < s then 1 else 0)"

text \<open>
  Example contours: the closed square \<open>M a a L b a L b b L a b Z\<close> (for \<open>n = 5\<close>
  operations and flags \<open>f = 3\<close>), which winds \<open>w\<close> times around the points inside.
  Modelled from the spec: the position on the contour, of gskcontour.c, whose text is
  missing. Operation 0 is the initial move; operation \<open>i\<close> is the line from corner
  \<open>i - 1\<close> to corner \<open>i\<close>, the last one back to the first corner; the point at \<open>t\<close> on
  a line is the interpolation of its ends, exact at \<open>t = 0\<close> and \<open>t = 1\<close>. Example paths
  are built with \<open>GSK_PATH_FLAT = 1\<close> and \<open>GSK_PATH_CLOSED = 2\<close>.
\<close>

definition square_corner :: "real \<Rightarrow> real \<Rightarrow> nat \<Rightarrow> graphene_point" where
  "square_corner a b k =
     (if k mod 4 = 0 then \<lparr>point_x = a, point_y = a\<rparr>
      else if k mod 4 = 1 then \<lparr>point_x = b, point_y = a\<rparr>
      else if k mod 4 = 2 then \<lparr>point_x = b, point_y = b\<rparr>
      else \<lparr>point_x = a, point_y = b\<rparr>)"

definition line_point_at :: "graphene_point \<Rightarrow> graphene_point \<Rightarrow> real \<Rightarrow> graphene_point" where
  "line_point_at p q t =
     \<lparr>point_x = point_x p + t * (point_x q - point_x p),
      point_y = point_y p + t * (point_y q - point_y p)\<rparr>"

definition square_position :: "real \<Rightarrow> real \<Rightarrow> GskRealPathPoint \<Rightarrow> graphene_point" where
  "square_position a b point =
     (let i = unat (pp_idx point)
      in if i = 0 then square_corner a b 0
         else line_point_at (square_corner a b (i - 1)) (square_corner a b i) (pp_t point))"

definition example_contour :: "GskPathFlags \<Rightarrow> gsize \<Rightarrow> real \<Rightarrow> real \<Rightarrow> gint \<Rightarrow> GskContour" where
  "example_contour f n a b w =
     \<lparr>gsk_contour_get_flags = f, gsk_contour_get_n_ops = n,
      gsk_contour_get_bounds =
        \<lparr>bb_min = \<lparr>point_x = a, point_y = a\<rparr>, bb_max = \<lparr>point_x = b, point_y = b\<rparr>\<rparr>,
      gsk_contour_get_winding = (\<lambda>pt. if a \<le> point_x pt \<and> point_x pt \<le> b \<and>
                                          a \<le> point_y pt \<and> point_y pt \<le> b then w else 0),
      gsk_contour_get_position = square_position a b\<rparr>"

definition example_path :: "GskContour list \<Rightarrow> GskPath" where
  "example_path cs = gsk_path_new_from_contours 1 2 cs"

text \<open>
  Modelled from the spec: GLib's \<open>g_ascii_isspace\<close> and \<open>g_ascii_strtod\<close>, the latter
  on signed decimal integers only (numbers are locale-independent decimal numbers, the
  text is tolerant of white space). They instantiate the parameter of the parser on
  concrete strings.
\<close>

definition ascii_isspace :: "char \<Rightarrow> bool" where
  "ascii_isspace c = (c \<in> set [CHR '' '', CHR 0x09, CHR 0x0A, CHR 0x0C, CHR 0x0D])"

fun decimal_digits :: "string \<Rightarrow> nat \<Rightarrow> nat \<Rightarrow> nat \<times> nat" where
  "decimal_digits [] v n = (v, n)"
| "decimal_digits (c # p) v n =
     (if c \<in> set ''0123456789'' then decimal_digits p (10 * v + (of_char c - 48)) (Suc n)
      else (v, n))"

definition strtod_integer :: "string \<Rightarrow> real \<times> nat" where
  "strtod_integer p =
     (let ws = length (takeWhile ascii_isspace p);
          q = dropWhile ascii_isspace p;
          neg = (q \<noteq> [] \<and> hd q = CHR ''-'');
          (v, n) = decimal_digits (if neg then tl q else q) 0 0
      in if n = 0 then (0, 0)
         else (if neg then - real v else real v, ws + (if neg then 1 else 0) + n))"

definition glib_integers :: glib where
  "glib_integers = \<lparr>g_ascii_isspace = ascii_isspace, g_ascii_strtod = strtod_integer\<rparr>"

text \<open>
  The arguments of the commands, from the summary of the syntax in the documentation of
  \<open>gsk_path_parse\<close>: \<open>M x y\<close>, \<open>L x y\<close>, \<open>Q x1 y1 x2 y2\<close>, \<open>C x1 y1 x2 y2 x3 y3\<close>,
  \<open>Z\<close>, \<open>H x\<close>, \<open>V y\<close>, \<open>T x2 y2\<close>, \<open>S x2 y2 x3 y3\<close>, \<open>A rx ry r l s x y\<close> (two radii
  that are not negative, a number, two flags, a point) and \<open>E x1 y1 x2 y2\<close>, each with
  its lowercase variant. \<open>scan_args\<close> reads such a list of arguments and returns the
  rest of the input, or \<open>None\<close> when one of them cannot be read.
\<close>

datatype arg_kind = NUMBER | NONNEGATIVE | FLAG

definition scan_arg :: "glib \<Rightarrow> arg_kind \<Rightarrow> string \<Rightarrow> string option" where
  "scan_arg G k p =
     (case k of
        NUMBER \<Rightarrow> map_option snd (parse_number G p)
      | NONNEGATIVE \<Rightarrow> map_option snd (parse_nonnegative_number G p)
      | FLAG \<Rightarrow> map_option snd (parse_flag G p))"

fun scan_args :: "glib \<Rightarrow> arg_kind list \<Rightarrow> string \<Rightarrow> string option" where
  "scan_args G [] p = Some p"
| "scan_args G (k # ks) p =
     (case scan_arg G k p of None \<Rightarrow> None | Some p' \<Rightarrow> scan_args G ks p')"

definition command_args :: "char \<Rightarrow> arg_kind list option" where
  "command_args c =
     (if c \<in> set ''Zz'' then Some []
      else if c \<in> set ''MmLlTt'' then Some [NUMBER, NUMBER]
      else if c \<in> set ''HhVv'' then Some [NUMBER]
      else if c \<in> set ''Cc'' then Some [NUMBER, NUMBER, NUMBER, NUMBER, NUMBER, NUMBER]
      else if c \<in> set ''SsQqEe'' then Some [NUMBER, NUMBER, NUMBER, NUMBER]
      else if c \<in> set ''Aa''
        then Some [NONNEGATIVE, NONNEGATIVE, NUMBER, FLAG, FLAG, NUMBER, NUMBER]
      else None)"

text \<open>
  The syntax errors, for a state \<open>st\<close> at the start of a run of the loop body. With
  \<open>c\<close> the command after \<open>parse_command\<close> (the letter found, or else the previous
  command) there is an error when \<open>c\<close> is no command (no \<open>M\<close> has been read yet: a
  command before any \<open>M\<close>, or text that is none), when a command letter stands behind a
  comma, when nothing but a letter may follow \<open>Z\<close> and no letter is found (arguments or
  trailing text behind \<open>Z\<close>), or when the arguments of \<open>c\<close> cannot be read (a number
  that does not parse, a missing or surplus argument, a flag that is not \<open>0\<close> or \<open>1\<close>, a
  comma out of place, trailing text). At the end of the input it is an error to be
  behind a comma.
\<close>

definition syntax_error :: "glib \<Rightarrow> parser_state \<Rightarrow> bool" where
  "syntax_error G st =
     (let (found, p1, c) = parse_command G (ps_p st) (ps_cmd st)
      in case command_args c of
           None \<Rightarrow> True
         | Some ks \<Rightarrow>
             (ps_after_comma st \<and> found) \<or> (c \<in> set ''Zz'' \<and> \<not> found) \<or>
             scan_args G ks p1 = None)"

definition stops_in_error :: "glib \<Rightarrow> parser_state \<Rightarrow> bool" where
  "stops_in_error G st = (if ps_p st \<noteq> [] then syntax_error G st else ps_after_comma st)"

text \<open>
  \<open>parse_steps G string n st\<close> is the state after \<open>n\<close> runs of the loop body from
  \<open>st\<close>, when the input lasted and none of them jumped to \<open>error\<close>.
\<close>

fun parse_steps :: "glib \<Rightarrow> string \<Rightarrow> nat \<Rightarrow> parser_state \<Rightarrow> parser_state option" where
  "parse_steps G string 0 st = Some st"
| "parse_steps G string (Suc n) st =
     (if ps_p st = [] then None
      else (case parse_iteration G string st of
              None \<Rightarrow> None
            | Some st' \<Rightarrow> parse_steps G string n st'))"

text \<open>No command letter stands at \<open>p\<close> (behind white space): the loop body repeats.\<close>

definition no_command_letter :: "glib \<Rightarrow> parser_state \<Rightarrow> bool" where
  "no_command_letter G st = (\<not> fst (parse_command G (ps_p st) (ps_cmd st)))"

text \<open>
  A state of the parser at the start of a run of the loop body, for the examples: the
  builder, the current point, the rest of the input and the last command.
\<close>

definition example_state :: "GskPathBuilder \<Rightarrow> real \<Rightarrow> real \<Rightarrow> string \<Rightarrow> char \<Rightarrow> parser_state" where
  "example_state b x y p c =
     \<lparr>ps_builder = b, ps_x = x, ps_y = y, ps_prev_x1 = 0, ps_prev_y1 = 0,
      ps_path_x = 0, ps_path_y = 0, ps_p = p, ps_cmd = c, ps_after_comma = False\<rparr>"

section \<open>Path locations: equality and order\<close>

lemma unat_succ: "(w::gsize) + 1 \<noteq> 0 \<Longrightarrow> unat (w + 1) = Suc (unat w)"
  by (simp add: add.commute unatSuc)

lemma succ_eq_iff:
  fixes v w :: gsize
  assumes "v + 1 \<noteq> 0"
  shows "v + 1 = w \<longleftrightarrow> Suc (unat v) = unat w"
proof -
  have "v + 1 = w \<longleftrightarrow> unat (v + 1) = unat w"
    by (rule word_unat_eq_iff)
  then show ?thesis by (simp only: unat_succ [OF assms])
qed

lemma compare_nat_key:
  fixes a b :: nat and s t :: real
  assumes "0 \<le> s" "s \<le> 1" "0 \<le> t" "t \<le> 1"
  shows "compare_nat a s b t = three_way (real a + s) (real b + t)"
proof -
  consider "a < b" | "a = b" | "b < a" by linarith
  then show ?thesis
  proof cases
    case 1
    then have "real a + 1 \<le> real b" by (simp add: nat_less_real_le)
    with assms 1 show ?thesis
      by (auto simp add: compare_nat_def three_way_def)
  next
    case 2
    then show ?thesis by (auto simp add: compare_nat_def three_way_def)
  next
    case 3
    then have "real b + 1 \<le> real a" by (simp add: nat_less_real_le)
    with assms 3 show ?thesis
      by (auto simp add: compare_nat_def three_way_def)
  qed
qed

lemma compare_same_contour:
  assumes "pp_idx p + 1 \<noteq> 0" "pp_idx q + 1 \<noteq> 0" "pp_contour p = pp_contour q"
  shows "gsk_path_point_compare p q =
           compare_nat (unat (pp_idx p)) (pp_t p) (unat (pp_idx q)) (pp_t q)"
proof -
  have e1: "pp_idx p = pp_idx q \<longleftrightarrow> unat (pp_idx p) = unat (pp_idx q)"
    by (rule word_unat_eq_iff)
  have e2: "pp_idx p + 1 = pp_idx q \<longleftrightarrow> Suc (unat (pp_idx p)) = unat (pp_idx q)"
    by (rule succ_eq_iff [OF assms(1)])
  have e3: "pp_idx p = pp_idx q + 1 \<longleftrightarrow> unat (pp_idx p) = Suc (unat (pp_idx q))"
    using succ_eq_iff [OF assms(2), of "pp_idx p"] by (simp only: eq_commute)
  have l1: "pp_idx p < pp_idx q \<longleftrightarrow> unat (pp_idx p) < unat (pp_idx q)"
    by (rule word_less_nat_alt)
  have l2: "pp_idx q < pp_idx p \<longleftrightarrow> unat (pp_idx q) < unat (pp_idx p)"
    by (rule word_less_nat_alt)
  have eq: "gsk_path_point_equal p q \<longleftrightarrow>
      (unat (pp_idx p) = unat (pp_idx q) \<and> pp_t p = pp_t q) \<or>
      (Suc (unat (pp_idx p)) = unat (pp_idx q) \<and> pp_t p = 1 \<and> pp_t q = 0) \<or>
      (unat (pp_idx p) = Suc (unat (pp_idx q)) \<and> pp_t p = 0 \<and> pp_t q = 1)"
    unfolding gsk_path_point_equal_def
    by (simp only: e1 e2 e3 assms(3) if_True simp_thms if_bool_eq_conj)
  show ?thesis
    unfolding gsk_path_point_compare_def compare_nat_def
    by (simp only: eq l1 l2 assms(3) order_less_irrefl if_False)
qed

lemma three_way_pair:
  "three_way (c, a) (c, b) = three_way a b"
  by (simp add: three_way_def)

lemma compare_key:
  assumes "location_valid p" "location_valid q"
  shows "gsk_path_point_compare p q = three_way (location_key p) (location_key q)"
proof (cases "pp_contour p = pp_contour q")
  case True
  from assms have t: "0 \<le> pp_t p" "pp_t p \<le> 1" "0 \<le> pp_t q" "pp_t q \<le> 1"
    and i: "pp_idx p + 1 \<noteq> 0" "pp_idx q + 1 \<noteq> 0"
    by (simp_all add: location_valid_def)
  show ?thesis
    by (simp only: compare_same_contour [OF i True] compare_nat_key [OF t]
          location_key_def True three_way_pair)
next
  case False
  then show ?thesis
    by (auto simp add: gsk_path_point_compare_def gsk_path_point_equal_def
          location_key_def three_way_def)
qed

lemma three_way_trans:
  "three_way a b \<le> 0 \<Longrightarrow> three_way b c \<le> 0 \<Longrightarrow> three_way a c \<le> 0"
  by (auto simp add: three_way_def split: if_splits)

lemma compare_trans:
  assumes "location_valid p" "location_valid q" "location_valid r"
    and "gsk_path_point_compare p q \<le> 0" "gsk_path_point_compare q r \<le> 0"
  shows "gsk_path_point_compare p r \<le> 0"
  using assms three_way_trans [of "location_key p" "location_key q" "location_key r"]
  by (simp add: compare_key)

lemma equal_iff:
  "gsk_path_point_equal p q \<longleftrightarrow>
     location_triple p = location_triple q \<or> segment_boundary p q \<or> segment_boundary q p"
  by (auto simp add: gsk_path_point_equal_def location_triple_def segment_boundary_def)

lemma compare_lex:
  "gsk_path_point_compare p q =
     (if gsk_path_point_equal p q then 0
      else three_way (location_triple p) (location_triple q))"
  by (auto simp add: gsk_path_point_compare_def gsk_path_point_equal_def three_way_def
        location_triple_def)

lemma compare_range: "gsk_path_point_compare p q \<in> {-1, 0, 1}"
  by (simp add: gsk_path_point_compare_def)

lemma compare_zero_iff: "gsk_path_point_compare p q = 0 \<longleftrightarrow> gsk_path_point_equal p q"
  by (auto simp add: gsk_path_point_compare_def gsk_path_point_equal_def)

lemma equal_sym: "gsk_path_point_equal p q = gsk_path_point_equal q p"
  by (auto simp add: gsk_path_point_equal_def)

lemma compare_antisym: "gsk_path_point_compare p q = - gsk_path_point_compare q p"
  using equal_sym [of p q]
  by (auto simp add: gsk_path_point_compare_def)

text \<open>
  C4: equality of locations is not equality of the points they denote. The start point
  and the end point of a closed contour (here the square from \<open>(0, 0)\<close> to
  \<open>(10, 10)\<close>) are at the same position, and \<open>gsk_path_point_equal\<close> is false on them,
  as its documentation says.
\<close>

theorem path_point_equal_counterexample:
  "gsk_path_get_start_point (example_path [example_contour 3 5 0 10 1]) =
     Some \<lparr>pp_contour = 0, pp_idx = 1, pp_t = 0\<rparr> \<and>
   gsk_path_get_end_point (example_path [example_contour 3 5 0 10 1]) =
     Some \<lparr>pp_contour = 0, pp_idx = 4, pp_t = 1\<rparr> \<and>
   gsk_path_point_get_position \<lparr>pp_contour = 0, pp_idx = 1, pp_t = 0\<rparr>
     (example_path [example_contour 3 5 0 10 1]) = Some \<lparr>point_x = 0, point_y = 0\<rparr> \<and>
   gsk_path_point_get_position \<lparr>pp_contour = 0, pp_idx = 4, pp_t = 1\<rparr>
     (example_path [example_contour 3 5 0 10 1]) = Some \<lparr>point_x = 0, point_y = 0\<rparr> \<and>
   \<not> gsk_path_point_equal \<lparr>pp_contour = 0, pp_idx = 1, pp_t = 0\<rparr>
     \<lparr>pp_contour = 0, pp_idx = 4, pp_t = 1\<rparr> \<and>
   gsk_path_point_compare \<lparr>pp_contour = 0, pp_idx = 1, pp_t = 0\<rparr>
     \<lparr>pp_contour = 0, pp_idx = 4, pp_t = 1\<rparr> = - 1"
  by (simp add: gsk_path_get_start_point_def gsk_path_get_end_point_def n_contours_def
        example_path_def example_contour_def gsk_path_new_from_contours_def
        gsk_path_point_get_position_def gsk_path_get_contour_def square_position_def
        square_corner_def line_point_at_def gsk_path_point_equal_def
        gsk_path_point_compare_def)

text \<open>
  C4, amended: two locations are equal exactly when their triples of contour index,
  segment index and parameter match, or when they are the two representations
  \<open>(i, s, 1)\<close> and \<open>(i, s + 1, 0)\<close> of a segment boundary in one contour. The comparison
  returns 0 for equal locations and otherwise the lexicographic order of the triples;
  any two locations are comparable, and on valid locations (parameter in the unit
  interval, the segment index has a successor) the comparison is transitive: it is a
  total order.
\<close>

theorem path_point_order:
  "(gsk_path_point_equal p q \<longleftrightarrow>
      location_triple p = location_triple q \<or> segment_boundary p q \<or> segment_boundary q p) \<and>
   gsk_path_point_compare p q =
     (if gsk_path_point_equal p q then 0
      else three_way (location_triple p) (location_triple q)) \<and>
   (gsk_path_point_compare p q \<le> 0 \<or> gsk_path_point_compare q p \<le> 0) \<and>
   (location_valid p \<and> location_valid q \<and> location_valid r \<and>
    gsk_path_point_compare p q \<le> 0 \<and> gsk_path_point_compare q r \<le> 0 \<longrightarrow>
      gsk_path_point_compare p r \<le> 0)"
proof (intro conjI impI)
  show "gsk_path_point_equal p q \<longleftrightarrow>
      location_triple p = location_triple q \<or> segment_boundary p q \<or> segment_boundary q p"
    by (rule equal_iff)
  show "gsk_path_point_compare p q =
     (if gsk_path_point_equal p q then 0
      else three_way (location_triple p) (location_triple q))"
    by (rule compare_lex)
  show "gsk_path_point_compare p q \<le> 0 \<or> gsk_path_point_compare q p \<le> 0"
    using compare_antisym [of p q] by linarith
  assume "location_valid p \<and> location_valid q \<and> location_valid r \<and>
    gsk_path_point_compare p q \<le> 0 \<and> gsk_path_point_compare q r \<le> 0"
  then show "gsk_path_point_compare p r \<le> 0"
    using compare_trans [of p q r] by blast
qed

theorem path_point_order_witness:
  "location_valid \<lparr>pp_contour = 0, pp_idx = 1, pp_t = 1\<rparr> \<and>
   location_valid \<lparr>pp_contour = 0, pp_idx = 2, pp_t = 0\<rparr> \<and>
   location_valid \<lparr>pp_contour = 0, pp_idx = 2, pp_t = 1 / 2\<rparr> \<and>
   gsk_path_point_equal \<lparr>pp_contour = 0, pp_idx = 1, pp_t = 1\<rparr>
     \<lparr>pp_contour = 0, pp_idx = 2, pp_t = 0\<rparr> \<and>
   gsk_path_point_compare \<lparr>pp_contour = 0, pp_idx = 1, pp_t = 1\<rparr>
     \<lparr>pp_contour = 0, pp_idx = 2, pp_t = 0\<rparr> = 0 \<and>
   gsk_path_point_compare \<lparr>pp_contour = 0, pp_idx = 2, pp_t = 0\<rparr>
     \<lparr>pp_contour = 0, pp_idx = 2, pp_t = 1 / 2\<rparr> = - 1 \<and>
   gsk_path_point_compare \<lparr>pp_contour = 0, pp_idx = 1, pp_t = 1\<rparr>
     \<lparr>pp_contour = 0, pp_idx = 2, pp_t = 1 / 2\<rparr> \<le> 0"
  using path_point_order [of "\<lparr>pp_contour = 0, pp_idx = 1, pp_t = 1\<rparr>"
      "\<lparr>pp_contour = 0, pp_idx = 2, pp_t = 0\<rparr>" "\<lparr>pp_contour = 0, pp_idx = 2, pp_t = 1 / 2\<rparr>"]
  by (simp add: location_valid_def gsk_path_point_equal_def gsk_path_point_compare_def)

text \<open>
  C10: the comparison returns 0 exactly for equal locations, it is antisymmetric
  (\<open>compare (p, q) = - compare (q, p)\<close>), and locations in different contours are never
  equal: they never compare as 0.
\<close>

theorem path_point_compare_consistent:
  "(gsk_path_point_compare p q = 0 \<longleftrightarrow> gsk_path_point_equal p q) \<and>
   gsk_path_point_compare p q = - gsk_path_point_compare q p \<and>
   (pp_contour p \<noteq> pp_contour q \<longrightarrow>
      \<not> gsk_path_point_equal p q \<and> gsk_path_point_compare p q \<noteq> 0)"
  using compare_zero_iff [of p q] compare_antisym [of p q]
  by (auto simp add: gsk_path_point_equal_def)

theorem path_point_compare_consistent_witness:
  "pp_contour \<lparr>pp_contour = 0, pp_idx = 1, pp_t = 0\<rparr> \<noteq>
     pp_contour \<lparr>pp_contour = 1, pp_idx = 1, pp_t = 0\<rparr> \<and>
   gsk_path_point_get_position \<lparr>pp_contour = 0, pp_idx = 1, pp_t = 0\<rparr>
       (example_path [example_contour 3 5 0 10 1, example_contour 3 5 0 10 1]) =
     gsk_path_point_get_position \<lparr>pp_contour = 1, pp_idx = 1, pp_t = 0\<rparr>
       (example_path [example_contour 3 5 0 10 1, example_contour 3 5 0 10 1]) \<and>
   \<not> gsk_path_point_equal \<lparr>pp_contour = 0, pp_idx = 1, pp_t = 0\<rparr>
     \<lparr>pp_contour = 1, pp_idx = 1, pp_t = 0\<rparr> \<and>
   gsk_path_point_compare \<lparr>pp_contour = 0, pp_idx = 1, pp_t = 0\<rparr>
     \<lparr>pp_contour = 1, pp_idx = 1, pp_t = 0\<rparr> = - 1 \<and>
   gsk_path_point_compare \<lparr>pp_contour = 1, pp_idx = 1, pp_t = 0\<rparr>
     \<lparr>pp_contour = 0, pp_idx = 1, pp_t = 0\<rparr> = 1"
  using path_point_compare_consistent [of "\<lparr>pp_contour = 0, pp_idx = 1, pp_t = 0\<rparr>"
      "\<lparr>pp_contour = 1, pp_idx = 1, pp_t = 0\<rparr>"]
  by (simp add: gsk_path_point_compare_def gsk_path_point_equal_def
        gsk_path_point_get_position_def gsk_path_get_contour_def n_contours_def
        example_path_def example_contour_def gsk_path_new_from_contours_def
        square_position_def)

section \<open>Paths: flags, bounds, fill and end points\<close>

lemma winding_loop_acc:
  "winding_loop cs pt w = w + word_of_int (\<Sum>c\<leftarrow>cs. sint (gsk_contour_get_winding c pt))"
  by (induction cs arbitrary: w) (simp_all add: algebra_simps)

lemma winding_loop_word:
  "winding_loop (contours self) pt 0 = word_of_int (winding_sum self pt)"
  by (simp add: winding_loop_acc winding_sum_def)

lemma gint_odd: "((word_of_int k :: gint) AND 1 \<noteq> 0) = odd k"
  by (simp add: and_one_eq mod_2_eq_odd word_eq_iff_unsigned [where ?'a = nat] even_of_int_iff)

lemma gint_zero: "- (2 ^ 31) \<le> k \<Longrightarrow> k < 2 ^ 31 \<Longrightarrow> ((word_of_int k :: gint) = 0) = (k = 0)"
  by (auto simp add: word_of_int_eq_0_iff)

text \<open>
  C1: \<open>gsk_path_in_fill\<close> adds up the winding contributions of all contours in contour
  order. Under the even-odd rule it is true exactly when the sum is odd; under the
  winding rule it is true exactly when the sum is not zero, the sum being a C \<open>int\<close>.
\<close>

theorem in_fill_winding_sum:
  "(gsk_path_in_fill self pt GSK_FILL_RULE_EVEN_ODD \<longleftrightarrow> odd (winding_sum self pt)) \<and>
   (- (2 ^ 31) \<le> winding_sum self pt \<and> winding_sum self pt < 2 ^ 31 \<longrightarrow>
      (gsk_path_in_fill self pt GSK_FILL_RULE_WINDING \<longleftrightarrow> winding_sum self pt \<noteq> 0))"
  by (simp add: gsk_path_in_fill_def winding_loop_word gint_odd gint_zero)

theorem in_fill_winding_sum_witness:
  "winding_sum (example_path [example_contour 3 5 0 10 1, example_contour 3 5 2 4 1])
      \<lparr>point_x = 3, point_y = 3\<rparr> = 2 \<and>
   \<not> gsk_path_in_fill (example_path [example_contour 3 5 0 10 1, example_contour 3 5 2 4 1])
      \<lparr>point_x = 3, point_y = 3\<rparr> GSK_FILL_RULE_EVEN_ODD \<and>
   gsk_path_in_fill (example_path [example_contour 3 5 0 10 1, example_contour 3 5 2 4 1])
      \<lparr>point_x = 3, point_y = 3\<rparr> GSK_FILL_RULE_WINDING"
  using in_fill_winding_sum [of "example_path [example_contour 3 5 0 10 1, example_contour 3 5 2 4 1]"
      "\<lparr>point_x = 3, point_y = 3\<rparr>"]
  by (simp add: winding_sum_def example_path_def example_contour_def
        gsk_path_new_from_contours_def)

text \<open>
  C5: \<open>gsk_path_is_closed\<close> is true exactly when the path has one contour and the closed
  flag of that contour is set; a path without contours is not closed, and a path with
  two or more contours is not closed, whatever their flags.
\<close>

theorem is_closed_iff:
  "(gsk_path_is_closed CLOSED self \<longleftrightarrow>
      (\<exists>c. contours self = [c] \<and> gsk_contour_get_flags c AND CLOSED \<noteq> 0)) \<and>
   (n_contours self = 0 \<longrightarrow> \<not> gsk_path_is_closed CLOSED self) \<and>
   (2 \<le> n_contours self \<longrightarrow> \<not> gsk_path_is_closed CLOSED self)"
  by (cases "contours self")
     (auto simp add: gsk_path_is_closed_def n_contours_def)

theorem is_closed_iff_witness:
  "gsk_path_is_closed 2 (example_path [example_contour 3 5 0 10 1]) \<and>
   \<not> gsk_path_is_closed 2 (example_path [example_contour 1 5 0 10 1]) \<and>
   n_contours (example_path []) = 0 \<and>
   \<not> gsk_path_is_closed 2 (example_path []) \<and>
   2 \<le> n_contours (example_path [example_contour 3 5 0 10 1, example_contour 3 5 2 4 1]) \<and>
   \<not> gsk_path_is_closed 2 (example_path [example_contour 3 5 0 10 1, example_contour 3 5 2 4 1])"
  using is_closed_iff [of 2 "example_path [example_contour 3 5 0 10 1]"]
    is_closed_iff [of 2 "example_path [example_contour 1 5 0 10 1]"]
    is_closed_iff [of 2 "example_path []"]
    is_closed_iff [of 2 "example_path [example_contour 3 5 0 10 1, example_contour 3 5 2 4 1]"]
  by (simp add: example_path_def example_contour_def gsk_path_new_from_contours_def
        n_contours_def)

lemma new_flags_loop_bit:
  "bit (new_flags_loop cs flags) n \<longleftrightarrow>
     bit flags n \<and> (\<forall>c \<in> set cs. bit (gsk_contour_get_flags c) n)"
  by (induction cs arbitrary: flags) (auto simp add: bit_and_iff)

text \<open>
  C6: the flags of a path made by \<open>gsk_path_new_from_contours\<close> are the bitwise AND of
  \<open>CLOSED | FLAT\<close> and the flags of all its contours: a bit is set exactly when it is
  one of the two flags and every contour has it. A path made from no contours has both
  flags, and \<open>gsk_path_get_flags\<close> returns the stored value.
\<close>

theorem new_from_contours_flags:
  "(\<forall>n. bit (gsk_path_get_flags (gsk_path_new_from_contours FLAT CLOSED cs)) n \<longleftrightarrow>
      (bit CLOSED n \<or> bit FLAT n) \<and> (\<forall>c \<in> set cs. bit (gsk_contour_get_flags c) n)) \<and>
   gsk_path_get_flags (gsk_path_new_from_contours FLAT CLOSED []) = CLOSED OR FLAT \<and>
   contours (gsk_path_new_from_contours FLAT CLOSED cs) = cs"
  by (simp add: gsk_path_get_flags_def gsk_path_new_from_contours_def new_flags_loop_bit
        bit_or_iff)

theorem new_from_contours_flags_witness:
  "gsk_path_get_flags (gsk_path_new_from_contours 1 2
      [example_contour 3 5 0 10 1, example_contour 2 5 2 4 1]) = 2 \<and>
   bit (gsk_contour_get_flags (example_contour 3 5 0 10 1)) 1 \<and>
   bit (gsk_contour_get_flags (example_contour 2 5 2 4 1)) 1 \<and>
   \<not> bit (gsk_contour_get_flags (example_contour 2 5 2 4 1)) 0 \<and>
   \<not> bit (gsk_path_get_flags (gsk_path_new_from_contours 1 2
      [example_contour 3 5 0 10 1, example_contour 2 5 2 4 1])) 0 \<and>
   bit (gsk_path_get_flags (gsk_path_new_from_contours 1 2
      [example_contour 3 5 0 10 1, example_contour 2 5 2 4 1])) 1"
  using new_from_contours_flags [of 1 2 "[example_contour 3 5 0 10 1, example_contour 2 5 2 4 1]"]
  by (simp add: gsk_path_get_flags_def gsk_path_new_from_contours_def example_contour_def)

lemma bounds_loop_foldl:
  "bounds_loop l b = foldl gsk_bounding_box_union b (map gsk_contour_get_bounds l)"
  by (induction l arbitrary: b) simp_all

text \<open>
  C7: \<open>gsk_path_get_bounds\<close> returns false together with the zero rectangle exactly when
  the path has no contours. For a path with contours it returns true with the union of
  the bounds of its contours, which can be the zero rectangle: the boolean result tells
  the empty path from a path that is a single point.
\<close>

theorem get_bounds_empty_iff:
  "(gsk_path_get_bounds self = (False, graphene_rect_zero) \<longleftrightarrow> n_contours self = 0) \<and>
   (fst (gsk_path_get_bounds self) \<longleftrightarrow> n_contours self \<noteq> 0) \<and>
   (n_contours self \<noteq> 0 \<longrightarrow>
      gsk_path_get_bounds self =
        (True, gsk_bounding_box_to_rect
                 (foldl gsk_bounding_box_union (gsk_contour_get_bounds (hd (contours self)))
                    (map gsk_contour_get_bounds (tl (contours self))))))"
  by (cases "contours self")
     (simp_all add: gsk_path_get_bounds_def n_contours_def bounds_loop_foldl)

theorem get_bounds_empty_iff_witness:
  "n_contours (example_path [example_contour 0 1 0 0 0]) \<noteq> 0 \<and>
   gsk_path_get_bounds (example_path [example_contour 0 1 0 0 0]) = (True, graphene_rect_zero) \<and>
   gsk_path_get_bounds (example_path []) = (False, graphene_rect_zero) \<and>
   gsk_path_get_bounds (example_path [example_contour 3 5 0 10 1, example_contour 3 5 (-2) 4 1]) =
     (True, \<lparr>rect_origin = \<lparr>point_x = - 2, point_y = - 2\<rparr>, rect_width = 12, rect_height = 12\<rparr>)"
  using get_bounds_empty_iff [of "example_path [example_contour 0 1 0 0 0]"]
    get_bounds_empty_iff [of "example_path []"]
    get_bounds_empty_iff [of "example_path [example_contour 3 5 0 10 1, example_contour 3 5 (-2) 4 1]"]
  by (simp add: example_path_def example_contour_def gsk_path_new_from_contours_def
        n_contours_def graphene_rect_zero_def gsk_bounding_box_to_rect_def
        gsk_bounding_box_union_def)

text \<open>
  C8: \<open>gsk_path_get_start_point\<close> and \<open>gsk_path_get_end_point\<close> return no location
  exactly when the path has no contours. Otherwise the start point is (contour 0,
  index 1, \<open>t = 0\<close>) and the end point is (last contour, its number of operations
  minus one, \<open>t = 1\<close>).
\<close>

theorem start_end_point:
  "(gsk_path_get_start_point self = None \<longleftrightarrow> n_contours self = 0) \<and>
   (gsk_path_get_end_point self = None \<longleftrightarrow> n_contours self = 0) \<and>
   (n_contours self \<noteq> 0 \<longrightarrow>
      gsk_path_get_start_point self = Some \<lparr>pp_contour = 0, pp_idx = 1, pp_t = 0\<rparr> \<and>
      gsk_path_get_end_point self =
        Some \<lparr>pp_contour = of_nat (n_contours self - 1),
              pp_idx = gsk_contour_get_n_ops (last (contours self)) - 1,
              pp_t = 1\<rparr>)"
  by (cases "contours self" rule: rev_cases)
     (simp_all add: gsk_path_get_start_point_def gsk_path_get_end_point_def n_contours_def)

theorem start_end_point_witness:
  "n_contours (example_path [example_contour 3 5 0 10 1, example_contour 3 7 2 4 1]) \<noteq> 0 \<and>
   gsk_path_get_start_point (example_path [example_contour 3 5 0 10 1, example_contour 3 7 2 4 1]) =
     Some \<lparr>pp_contour = 0, pp_idx = 1, pp_t = 0\<rparr> \<and>
   gsk_path_get_end_point (example_path [example_contour 3 5 0 10 1, example_contour 3 7 2 4 1]) =
     Some \<lparr>pp_contour = 1, pp_idx = 6, pp_t = 1\<rparr> \<and>
   gsk_path_get_start_point (example_path []) = None \<and>
   gsk_path_get_end_point (example_path []) = None"
  using start_end_point [of "example_path [example_contour 3 5 0 10 1, example_contour 3 7 2 4 1]"]
    start_end_point [of "example_path []"]
  by (simp add: example_path_def example_contour_def gsk_path_new_from_contours_def
        n_contours_def)

section \<open>The parser fails as a whole\<close>

text \<open>A run of the loop body fails exactly in a state that is a syntax error.\<close>

lemma scan_pair:
  "scan_args G (NUMBER # NUMBER # ks) p =
     (case parse_coordinate_pair G p of None \<Rightarrow> None | Some (a, b, p') \<Rightarrow> scan_args G ks p')"
  by (simp add: scan_arg_def parse_coordinate_pair_def parse_coordinate_def
        split: option.split)

lemma scan_number:
  "scan_args G (NUMBER # ks) p =
     (case parse_number G p of None \<Rightarrow> None | Some (a, p') \<Rightarrow> scan_args G ks p')"
  by (simp add: scan_arg_def split: option.split)

lemma scan_nonnegative:
  "scan_args G (NONNEGATIVE # ks) p =
     (case parse_nonnegative_number G p of None \<Rightarrow> None | Some (a, p') \<Rightarrow> scan_args G ks p')"
  by (simp add: scan_arg_def split: option.split)

lemma scan_flag:
  "scan_args G (FLAG # ks) p =
     (case parse_flag G p of None \<Rightarrow> None | Some (a, p') \<Rightarrow> scan_args G ks p')"
  by (simp add: scan_arg_def split: option.split)

lemma case_M_None:
  "case_M G st prev_cmd repeat = None \<longleftrightarrow> scan_args G [NUMBER, NUMBER] (ps_p st) = None"
  by (simp add: case_M_def scan_pair Let_def del: scan_args.simps(2) split: option.split Option.bind_split)

lemma case_L_None:
  "case_L G st prev_cmd = None \<longleftrightarrow> scan_args G [NUMBER, NUMBER] (ps_p st) = None"
  by (simp add: case_L_def scan_pair Let_def del: scan_args.simps(2) split: option.split Option.bind_split)

lemma case_T_None:
  "case_T G st prev_cmd = None \<longleftrightarrow> scan_args G [NUMBER, NUMBER] (ps_p st) = None"
  by (simp add: case_T_def scan_pair Let_def del: scan_args.simps(2) split: option.split Option.bind_split)

lemma case_H_None:
  "case_H G st prev_cmd = None \<longleftrightarrow> scan_args G [NUMBER] (ps_p st) = None"
  by (simp add: case_H_def scan_number parse_coordinate_def Let_def
        del: scan_args.simps(2) split: option.split Option.bind_split)

lemma case_V_None:
  "case_V G st prev_cmd = None \<longleftrightarrow> scan_args G [NUMBER] (ps_p st) = None"
  by (simp add: case_V_def scan_number parse_coordinate_def Let_def
        del: scan_args.simps(2) split: option.split Option.bind_split)

lemma case_C_None:
  "case_C G st prev_cmd = None \<longleftrightarrow>
     scan_args G [NUMBER, NUMBER, NUMBER, NUMBER, NUMBER, NUMBER] (ps_p st) = None"
  by (simp add: case_C_def scan_pair Let_def del: scan_args.simps(2) split: option.split Option.bind_split)

lemma case_S_None:
  "case_S G st prev_cmd = None \<longleftrightarrow>
     scan_args G [NUMBER, NUMBER, NUMBER, NUMBER] (ps_p st) = None"
  by (simp add: case_S_def scan_pair Let_def del: scan_args.simps(2) split: option.split Option.bind_split)

lemma case_Q_None:
  "case_Q G st prev_cmd = None \<longleftrightarrow>
     scan_args G [NUMBER, NUMBER, NUMBER, NUMBER] (ps_p st) = None"
  by (simp add: case_Q_def scan_pair Let_def del: scan_args.simps(2) split: option.split Option.bind_split)

lemma case_E_None:
  "case_E G st prev_cmd = None \<longleftrightarrow>
     scan_args G [NUMBER, NUMBER, NUMBER, NUMBER] (ps_p st) = None"
  by (simp add: case_E_def scan_pair Let_def del: scan_args.simps(2) split: option.split Option.bind_split)

lemma case_A_None:
  "case_A G st prev_cmd = None \<longleftrightarrow>
     scan_args G [NONNEGATIVE, NONNEGATIVE, NUMBER, FLAG, FLAG, NUMBER, NUMBER] (ps_p st) = None"
  by (simp add: case_A_def scan_nonnegative scan_number scan_flag Let_def
        parse_coordinate_pair_def parse_coordinate_def
        del: scan_args.simps(2) split: option.split Option.bind_split)

lemma case_Z_None: "case_Z st repeat = None \<longleftrightarrow> repeat"
  by (simp add: case_Z_def)

lemma switch_cmd_None:
  "switch_cmd G st prev_cmd repeat = None \<longleftrightarrow>
     (case command_args (ps_cmd st) of
        None \<Rightarrow> True
      | Some ks \<Rightarrow> (ps_cmd st \<in> set ''Zz'' \<and> repeat) \<or> scan_args G ks (ps_p st) = None)"
  unfolding switch_cmd_def Let_def command_args_def
  by (simp add: case_Z_None case_M_None case_L_None case_T_None case_H_None case_V_None
        case_C_None case_S_None case_Q_None case_E_None case_A_None del: scan_args.simps(2))

lemma parse_iteration_None:
  "parse_iteration G string st = None \<longleftrightarrow> syntax_error G st"
proof -
  obtain found p1 c where pc: "parse_command G (ps_p st) (ps_cmd st) = (found, p1, c)"
    by (cases "parse_command G (ps_p st) (ps_cmd st)")
  show ?thesis
    using switch_cmd_None [of G "st\<lparr>ps_p := p1, ps_cmd := c\<rparr>" "ps_cmd st" "\<not> found"]
    by (auto simp add: parse_iteration_def syntax_error_def pc Let_def
          split: option.splits simp del: scan_args.simps(2))
qed

lemma parse_loop_steps:
  "parse_steps G string n st = Some st' \<Longrightarrow> parse_loop G string st = parse_loop G string st'"
proof (induction n arbitrary: st)
  case 0
  then show ?case by simp
next
  case (Suc n)
  from Suc.prems obtain st1 where ne: "ps_p st \<noteq> []"
    and it: "parse_iteration G string st = Some st1"
    and rest: "parse_steps G string n st1 = Some st'"
    by (auto split: if_splits option.splits)
  have "parse_loop G string st = parse_loop G string st1"
    using ne it by (subst parse_loop.simps) simp
  with Suc.IH [OF rest] show ?case by simp
qed

lemma parse_loop_error:
  "stops_in_error G st \<Longrightarrow> parse_loop G string st = None"
  using parse_iteration_None [of G string st]
  by (subst parse_loop.simps) (auto simp add: stops_in_error_def split: if_splits)

lemma parse_loop_complete:
  assumes "parse_steps G string n st = Some st'" "ps_p st' = []" "\<not> ps_after_comma st'"
  shows "parse_loop G string st = Some (ps_builder st')"
proof -
  have "parse_loop G string st' = Some (ps_builder st')"
    using assms(2,3) by (subst parse_loop.simps) simp
  with parse_loop_steps [OF assms(1)] show ?thesis by simp
qed

text \<open>
  The loop comes to an end in either of two ways: in a state that is an error, or at
  the end of the input, not behind a comma, with the builder of that state.
\<close>

lemma parse_loop_stops:
  "\<exists>n st'. parse_steps G string n st = Some st' \<and>
     (if stops_in_error G st' then parse_loop G string st = None
      else ps_p st' = [] \<and> parse_loop G string st = Some (ps_builder st'))"
proof (induction G string st rule: parse_loop.induct)
  case (1 G string st)
  show ?case
  proof (cases "ps_p st = []")
    case True
    then have "parse_steps G string 0 st = Some st \<and>
       (if stops_in_error G st then parse_loop G string st = None
        else ps_p st = [] \<and> parse_loop G string st = Some (ps_builder st))"
      by (simp add: stops_in_error_def parse_loop.simps [of G string st])
    then show ?thesis by blast
  next
    case False
    show ?thesis
    proof (cases "parse_iteration G string st")
      case None
      with False parse_iteration_None [of G string st]
      have "parse_steps G string 0 st = Some st \<and>
         (if stops_in_error G st then parse_loop G string st = None
          else ps_p st = [] \<and> parse_loop G string st = Some (ps_builder st))"
        by (simp add: stops_in_error_def parse_loop.simps [of G string st])
      then show ?thesis by blast
    next
      case (Some st1)
      from "1.IH" [OF False Some] obtain n st' where
        s: "parse_steps G string n st1 = Some st'"
        and r: "if stops_in_error G st' then parse_loop G string st1 = None
          else ps_p st' = [] \<and> parse_loop G string st1 = Some (ps_builder st')"
        by blast
      have l: "parse_loop G string st = parse_loop G string st1"
        using False Some by (subst parse_loop.simps) simp
      from False Some s have "parse_steps G string (Suc n) st = Some st'" by simp
      with r l have "parse_steps G string (Suc n) st = Some st' \<and>
         (if stops_in_error G st' then parse_loop G string st = None
          else ps_p st' = [] \<and> parse_loop G string st = Some (ps_builder st'))"
        by simp
      then show ?thesis by blast
    qed
  qed
qed

text \<open>
  C2: parsing is transactional. \<open>gsk_path_parse\<close> always returns; it returns no path
  exactly when, after some number of runs of the loop body that got through (whatever
  calls the builder has received in them), the parser is in a state that is a syntax
  error: a command before any \<open>M\<close>, a letter behind a comma, arguments that cannot be
  read (a number that does not parse, a wrong number of arguments, a flag that is not
  \<open>0\<close> or \<open>1\<close>), text behind \<open>Z\<close>, or the end of the input behind a comma. It returns
  a builder only from the end of the input, reached without any error, and then the
  builder of that state: never a partially built one.
\<close>

theorem parse_transactional:
  "(gsk_path_parse G bytes = None \<longleftrightarrow>
      (\<exists>n st. parse_steps G (cstring bytes) n (parser_init (cstring bytes)) = Some st \<and>
         stops_in_error G st)) \<and>
   (gsk_path_parse G bytes = Some b \<longleftrightarrow>
      (\<exists>n st. parse_steps G (cstring bytes) n (parser_init (cstring bytes)) = Some st \<and>
         ps_p st = [] \<and> \<not> ps_after_comma st \<and> ps_builder st = b))"
proof -
  let ?s = "cstring bytes"
  let ?i = "parser_init ?s"
  have p: "gsk_path_parse G bytes = parse_loop G ?s ?i"
    by (simp add: gsk_path_parse_def Let_def)
  from parse_loop_stops [of G ?s ?i] obtain n st
    where s: "parse_steps G ?s n ?i = Some st"
      and r: "if stops_in_error G st then parse_loop G ?s ?i = None
        else ps_p st = [] \<and> parse_loop G ?s ?i = Some (ps_builder st)"
    by blast
  have none: "parse_loop G ?s ?i = None" if "parse_steps G ?s m ?i = Some st'"
    "stops_in_error G st'" for m st'
    using parse_loop_steps [OF that(1)] parse_loop_error [OF that(2), of ?s] by simp
  have some: "parse_loop G ?s ?i = Some (ps_builder st')"
    if "parse_steps G ?s m ?i = Some st'" "ps_p st' = []" "\<not> ps_after_comma st'" for m st'
    using that by (rule parse_loop_complete)
  have 1: "parse_loop G ?s ?i = None \<longleftrightarrow>
      (\<exists>n st. parse_steps G ?s n ?i = Some st \<and> stops_in_error G st)"
  proof
    assume "parse_loop G ?s ?i = None"
    with r have "stops_in_error G st" by (auto split: if_splits)
    with s show "\<exists>n st. parse_steps G ?s n ?i = Some st \<and> stops_in_error G st" by blast
  next
    assume "\<exists>n st. parse_steps G ?s n ?i = Some st \<and> stops_in_error G st"
    then show "parse_loop G ?s ?i = None" using none by blast
  qed
  have 2: "parse_loop G ?s ?i = Some b \<longleftrightarrow>
      (\<exists>n st. parse_steps G ?s n ?i = Some st \<and>
         ps_p st = [] \<and> \<not> ps_after_comma st \<and> ps_builder st = b)"
  proof
    assume a: "parse_loop G ?s ?i = Some b"
    with r have e: "\<not> stops_in_error G st" "ps_p st = []" "ps_builder st = b"
      by (auto split: if_splits)
    then have "\<not> ps_after_comma st" by (simp add: stops_in_error_def)
    with s e show "\<exists>n st. parse_steps G ?s n ?i = Some st \<and>
         ps_p st = [] \<and> \<not> ps_after_comma st \<and> ps_builder st = b" by blast
  next
    assume "\<exists>n st. parse_steps G ?s n ?i = Some st \<and>
         ps_p st = [] \<and> \<not> ps_after_comma st \<and> ps_builder st = b"
    then show "parse_loop G ?s ?i = Some b" using some by blast
  qed
  from 1 2 show ?thesis unfolding p by (rule conjI)
qed

theorem parse_transactional_witness:
  "parse_steps glib_integers (cstring ''M 0 0 L 1'') 1 (parser_init (cstring ''M 0 0 L 1'')) =
     Some (example_state [MOVE_TO 0 0] 0 0 ''L 1'' CHR ''M'') \<and>
   stops_in_error glib_integers
     (example_state [MOVE_TO 0 0] 0 0 ''L 1'' CHR ''M'') \<and>
   gsk_path_parse glib_integers ''M 0 0 L 1'' = None \<and>
   gsk_path_parse glib_integers ''M 0 0 L x 1'' = None \<and>
   gsk_path_parse glib_integers ''M 0 0 L 1 2 3'' = None \<and>
   gsk_path_parse glib_integers ''M 0 0 A 1 1 0 2 1 5 5'' = None \<and>
   gsk_path_parse glib_integers ''M 0 0 L 1 1 foo'' = None \<and>
   gsk_path_parse glib_integers ''M 0 0 L 1 1,'' = None \<and>
   gsk_path_parse glib_integers ''M 0 0, L 1 1'' = None \<and>
   gsk_path_parse glib_integers ''L 1 1'' = None \<and>
   gsk_path_parse glib_integers ''M 0 0 L 1 1'' = Some [MOVE_TO 0 0, LINE_TO 1 1]"
proof -
  let ?G = glib_integers
  let ?s = "''M 0 0 L 1''"
  let ?st = "example_state [MOVE_TO 0 0] 0 0 ''L 1'' CHR ''M''"
  have h: "parse_steps ?G (cstring ?s) 1 (parser_init (cstring ?s)) = Some ?st \<and>
      stops_in_error ?G ?st"
    by code_simp
  have e: "gsk_path_parse ?G ''M 0 0 L x 1'' = None \<and>
      gsk_path_parse ?G ''M 0 0 L 1 2 3'' = None \<and>
      gsk_path_parse ?G ''M 0 0 A 1 1 0 2 1 5 5'' = None \<and>
      gsk_path_parse ?G ''M 0 0 L 1 1 foo'' = None \<and>
      gsk_path_parse ?G ''M 0 0 L 1 1,'' = None \<and>
      gsk_path_parse ?G ''M 0 0, L 1 1'' = None \<and>
      gsk_path_parse ?G ''L 1 1'' = None \<and>
      gsk_path_parse ?G ''M 0 0 L 1 1'' = Some [MOVE_TO 0 0, LINE_TO 1 1]"
    by code_simp
  from parse_transactional [of ?G ?s] h have "gsk_path_parse ?G ?s = None" by blast
  with h e show ?thesis by blast
qed

section \<open>Omitted command letters\<close>

lemma case_Z_repeat: "case_Z st True = None"
  by (simp add: case_Z_def)

lemma close_never_repeats:
  assumes "ps_cmd st = CHR ''Z'' \<or> ps_cmd st = CHR ''z''" "no_command_letter G st"
  shows "parse_iteration G string st = None"
proof -
  obtain found p1 cmd1 where pc: "parse_command G (ps_p st) (ps_cmd st) = (found, p1, cmd1)"
    by (cases "parse_command G (ps_p st) (ps_cmd st)")
  with assms(2) have nf: "\<not> found" by (simp add: no_command_letter_def)
  with parse_command_progress(3) [OF pc] have "cmd1 = ps_cmd st" by simp
  with assms(1) nf pc show ?thesis
    by (auto simp add: parse_iteration_def switch_cmd_def case_Z_repeat)
qed

lemma move_repeats_as_line:
  assumes "ps_cmd st = CHR ''M'' \<or> ps_cmd st = CHR ''m''" "no_command_letter G st"
    and "parse_iteration G string st = Some st'"
  shows "ps_builder st' = gsk_path_builder_line_to (ps_builder st) (ps_x st') (ps_y st')"
proof -
  obtain found p1 cmd1 where pc: "parse_command G (ps_p st) (ps_cmd st) = (found, p1, cmd1)"
    by (cases "parse_command G (ps_p st) (ps_cmd st)")
  with assms(2) have nf: "\<not> found" by (simp add: no_command_letter_def)
  with parse_command_progress(3) [OF pc] have "cmd1 = ps_cmd st" by simp
  with assms(1,3) nf pc show ?thesis
    by (auto simp add: parse_iteration_def switch_cmd_def case_M_def Let_def
          bind_eq_Some_conv split: if_splits option.splits)
qed

lemma after_comma_at_insert:
  assumes "length q < length r"
  shows "after_comma_at (pre @ c # r) q = after_comma_at (pre @ r) q"
proof -
  from assms obtain k where k: "length r - length q = Suc k" 
    by (cases "length r - length q") simp_all
  from assms have 1: "length (pre @ c # r) - length q - 1 = length pre + Suc k"
    using k by simp
  from assms have 2: "length (pre @ r) - length q - 1 = length pre + k"
    using k by simp
  have "(pre @ c # r) ! (length pre + Suc k) = (pre @ r) ! (length pre + k)"
    by (simp add: nth_append)
  with assms show ?thesis
    unfolding after_comma_at_def 1 2 by simp
qed

lemma switch_cmd_repeat_irrelevant:
  assumes "ps_cmd st \<notin> set ''zZmM''"
  shows "switch_cmd G st prev_cmd repeat = switch_cmd G st prev_cmd repeat'"
  using assms by (simp add: switch_cmd_def Let_def)

lemma move_after_close_after_comma:
  "move_after_close prev_cmd (st\<lparr>ps_after_comma := b\<rparr>) =
     (move_after_close prev_cmd st)\<lparr>ps_after_comma := b\<rparr>"
  by (simp add: move_after_close_def)

lemma case_Z_after_comma:
  "case_Z (st\<lparr>ps_after_comma := b\<rparr>) repeat =
     map_option (\<lambda>s. s\<lparr>ps_after_comma := b\<rparr>) (case_Z st repeat)"
  by (simp add: case_Z_def)

lemma case_M_after_comma:
  "case_M G (st\<lparr>ps_after_comma := b\<rparr>) prev_cmd repeat =
     map_option (\<lambda>s. s\<lparr>ps_after_comma := b\<rparr>) (case_M G st prev_cmd repeat)"
  by (simp add: case_M_def Let_def split: Option.bind_split prod.split)

lemma case_L_after_comma:
  "case_L G (st\<lparr>ps_after_comma := b\<rparr>) prev_cmd =
     map_option (\<lambda>s. s\<lparr>ps_after_comma := b\<rparr>) (case_L G st prev_cmd)"
  by (simp add: case_L_def Let_def move_after_close_def split: Option.bind_split prod.split)

lemma case_H_after_comma:
  "case_H G (st\<lparr>ps_after_comma := b\<rparr>) prev_cmd =
     map_option (\<lambda>s. s\<lparr>ps_after_comma := b\<rparr>) (case_H G st prev_cmd)"
  by (simp add: case_H_def Let_def move_after_close_def split: Option.bind_split prod.split)

lemma case_V_after_comma:
  "case_V G (st\<lparr>ps_after_comma := b\<rparr>) prev_cmd =
     map_option (\<lambda>s. s\<lparr>ps_after_comma := b\<rparr>) (case_V G st prev_cmd)"
  by (simp add: case_V_def Let_def move_after_close_def split: Option.bind_split prod.split)

lemma case_C_after_comma:
  "case_C G (st\<lparr>ps_after_comma := b\<rparr>) prev_cmd =
     map_option (\<lambda>s. s\<lparr>ps_after_comma := b\<rparr>) (case_C G st prev_cmd)"
  by (simp add: case_C_def Let_def move_after_close_def split: Option.bind_split prod.split)

lemma case_S_after_comma:
  "case_S G (st\<lparr>ps_after_comma := b\<rparr>) prev_cmd =
     map_option (\<lambda>s. s\<lparr>ps_after_comma := b\<rparr>) (case_S G st prev_cmd)"
  by (simp add: case_S_def Let_def move_after_close_def split: Option.bind_split prod.split)

lemma case_Q_after_comma:
  "case_Q G (st\<lparr>ps_after_comma := b\<rparr>) prev_cmd =
     map_option (\<lambda>s. s\<lparr>ps_after_comma := b\<rparr>) (case_Q G st prev_cmd)"
  by (simp add: case_Q_def Let_def move_after_close_def split: Option.bind_split prod.split)

lemma case_T_after_comma:
  "case_T G (st\<lparr>ps_after_comma := b\<rparr>) prev_cmd =
     map_option (\<lambda>s. s\<lparr>ps_after_comma := b\<rparr>) (case_T G st prev_cmd)"
  by (simp add: case_T_def Let_def move_after_close_def split: Option.bind_split prod.split)

lemma case_A_after_comma:
  "case_A G (st\<lparr>ps_after_comma := b\<rparr>) prev_cmd =
     map_option (\<lambda>s. s\<lparr>ps_after_comma := b\<rparr>) (case_A G st prev_cmd)"
  by (simp add: case_A_def Let_def move_after_close_def split: Option.bind_split prod.split)

lemma case_E_after_comma:
  "case_E G (st\<lparr>ps_after_comma := b\<rparr>) prev_cmd =
     map_option (\<lambda>s. s\<lparr>ps_after_comma := b\<rparr>) (case_E G st prev_cmd)"
  by (simp add: case_E_def Let_def move_after_close_def split: Option.bind_split prod.split)

lemma switch_cmd_after_comma:
  "switch_cmd G (st\<lparr>ps_after_comma := b\<rparr>) prev_cmd repeat =
     map_option (\<lambda>s. s\<lparr>ps_after_comma := b\<rparr>) (switch_cmd G st prev_cmd repeat)"
  by (simp add: switch_cmd_def Let_def case_Z_after_comma case_M_after_comma
        case_L_after_comma case_H_after_comma case_V_after_comma case_C_after_comma
        case_S_after_comma case_Q_after_comma case_T_after_comma case_A_after_comma
        case_E_after_comma)

lemma drawing_command_repeats:
  assumes c: "c \<in> set ''hHvVlLcCsStTqQaAeE''"
    and st: "ps_cmd st = c" "ps_p st = r"
    and r: "skip_whitespace G r = r" "\<not> strchr_checked ''mMhHvVzZlLcCsStTqQaAeE'' (peek r)"
    and sp: "\<not> g_ascii_isspace G c"
  shows "parse_iteration G (pre @ r) st =
           parse_iteration G (pre @ c # r) (st\<lparr>ps_p := c # r, ps_after_comma := False\<rparr>)"
proof -
  from c have cX: "c \<noteq> CHR ''X''" and c0: "c \<noteq> CHR 0x00"
    and call: "c \<in> set ''mMhHvVzZlLcCsStTqQaAeE''" and cZM: "c \<notin> set ''zZmM''"
    by auto
  have pc1: "parse_command G r c = (False, r, c)"
    using cX r by (simp add: parse_command_def Let_def)
  have sw: "skip_whitespace G (c # r) = c # r" using sp by simp
  have pc2: "parse_command G (c # r) c = (True, r, c)"
    using cX c0 call unfolding parse_command_def Let_def sw
    by (simp add: strchr_checked_def peek_def)
  have same: "st\<lparr>ps_p := r, ps_cmd := c\<rparr> = st" using st by simp
  have irr: "switch_cmd G st c False = switch_cmd G st c True"
    using cZM st(1) by (intro switch_cmd_repeat_irrelevant) simp
  have l: "parse_iteration G (pre @ r) st =
      (case switch_cmd G st c True of None \<Rightarrow> None
       | Some st2 \<Rightarrow> Some (st2\<lparr>ps_after_comma := after_comma_at (pre @ r) (ps_p st2)\<rparr>))"
    by (simp add: parse_iteration_def Let_def st pc1 same)
  have same': "st\<lparr>ps_after_comma := False, ps_p := r, ps_cmd := c\<rparr> = st\<lparr>ps_after_comma := False\<rparr>"
    using st by simp
  have rr: "parse_iteration G (pre @ c # r) (st\<lparr>ps_p := c # r, ps_after_comma := False\<rparr>) =
      (case switch_cmd G st c True of None \<Rightarrow> None
       | Some st2 \<Rightarrow> Some (st2\<lparr>ps_after_comma := after_comma_at (pre @ c # r) (ps_p st2)\<rparr>))"
    by (simp add: parse_iteration_def Let_def st(1) pc2 same' switch_cmd_after_comma irr
          option.case_eq_if option.map_sel)
  show ?thesis
  proof (cases "switch_cmd G st c True")
    case None
    with l rr show ?thesis by simp
  next
    case (Some st2)
    from switch_cmd_progress(2) [OF Some] st(2) have "length (ps_p st2) < length r" by simp
    from after_comma_at_insert [OF this, of pre c] l rr Some show ?thesis by simp
  qed
qed

text \<open>
  C9: a run of the loop body that finds no command letter repeats the previous command,
  except that \<open>Z\<close> and \<open>M\<close> never repeat. After \<open>Z\<close> or \<open>z\<close> it is a parse error.
  After \<open>M\<close> or \<open>m\<close> the coordinate pair is not moved to again: the one call the
  builder receives is a line to the new current point. After any other command the
  run does what it does on the same text with the letter written out (which, unlike the
  omitted letter, may not stand behind a comma).
\<close>

theorem command_repeat:
  "(no_command_letter G st \<and> ps_cmd st \<in> set ''Zz'' \<longrightarrow> parse_iteration G string st = None) \<and>
   (no_command_letter G st \<and> ps_cmd st \<in> set ''Mm'' \<and> parse_iteration G string st = Some st' \<longrightarrow>
      ps_builder st' = gsk_path_builder_line_to (ps_builder st) (ps_x st') (ps_y st')) \<and>
   (c \<in> set ''hHvVlLcCsStTqQaAeE'' \<and> ps_cmd st = c \<and> ps_p st = r \<and>
    skip_whitespace G r = r \<and> \<not> strchr_checked ''mMhHvVzZlLcCsStTqQaAeE'' (peek r) \<and>
    \<not> g_ascii_isspace G c \<longrightarrow>
      parse_iteration G (pre @ r) st =
        parse_iteration G (pre @ c # r) (st\<lparr>ps_p := c # r, ps_after_comma := False\<rparr>))"
proof (intro conjI impI)
  assume "no_command_letter G st \<and> ps_cmd st \<in> set ''Zz''"
  then show "parse_iteration G string st = None"
    using close_never_repeats [of st G string] by auto
next
  assume "no_command_letter G st \<and> ps_cmd st \<in> set ''Mm'' \<and>
    parse_iteration G string st = Some st'"
  then show "ps_builder st' = gsk_path_builder_line_to (ps_builder st) (ps_x st') (ps_y st')"
    using move_repeats_as_line [of st G string st'] by auto
next
  assume "c \<in> set ''hHvVlLcCsStTqQaAeE'' \<and> ps_cmd st = c \<and>
    ps_p st = r \<and> skip_whitespace G r = r \<and>
    \<not> strchr_checked ''mMhHvVzZlLcCsStTqQaAeE'' (peek r) \<and> \<not> g_ascii_isspace G c"
  then show "parse_iteration G (pre @ r) st =
      parse_iteration G (pre @ c # r) (st\<lparr>ps_p := c # r, ps_after_comma := False\<rparr>)"
    using drawing_command_repeats [of c st r G pre] by blast
qed

theorem command_repeat_witness:
  "no_command_letter glib_integers (example_state [MOVE_TO 0 0, CLOSE] 0 0 '' 5 5'' CHR ''Z'') \<and>
   parse_iteration glib_integers ''M 0 0 Z 5 5''
     (example_state [MOVE_TO 0 0, CLOSE] 0 0 '' 5 5'' CHR ''Z'') = None \<and>
   gsk_path_parse glib_integers ''M 0 0 Z 5 5'' = None \<and>
   no_command_letter glib_integers (example_state [MOVE_TO 0 0] 0 0 ''1 1'' CHR ''M'') \<and>
   ps_builder (the (parse_iteration glib_integers ''M 0 0 1 1''
     (example_state [MOVE_TO 0 0] 0 0 ''1 1'' CHR ''M''))) = [MOVE_TO 0 0, LINE_TO 1 1] \<and>
   gsk_path_parse glib_integers ''M 0 0 1 1'' = Some [MOVE_TO 0 0, LINE_TO 1 1] \<and>
   gsk_path_parse glib_integers ''M 0 0 M 1 1'' = Some [MOVE_TO 0 0, MOVE_TO 1 1] \<and>
   parse_iteration glib_integers (''M 0 0 L 1 1 '' @ ''2 2'')
       (example_state [MOVE_TO 0 0, LINE_TO 1 1] 1 1 ''2 2'' CHR ''L'') =
     parse_iteration glib_integers (''M 0 0 L 1 1 '' @ CHR ''L'' # ''2 2'')
       ((example_state [MOVE_TO 0 0, LINE_TO 1 1] 1 1 ''2 2'' CHR ''L'')
          \<lparr>ps_p := CHR ''L'' # ''2 2'', ps_after_comma := False\<rparr>) \<and>
   parse_steps glib_integers ''M 0 0 L 1 1 2 2'' 2 (parser_init ''M 0 0 L 1 1 2 2'') =
     Some (example_state [MOVE_TO 0 0, LINE_TO 1 1] 1 1 ''2 2'' CHR ''L'') \<and>
   gsk_path_parse glib_integers ''M 0 0 L 1 1 2 2'' =
     Some [MOVE_TO 0 0, LINE_TO 1 1, LINE_TO 2 2] \<and>
   gsk_path_parse glib_integers ''M 0 0 L 1 1 L2 2'' =
     Some [MOVE_TO 0 0, LINE_TO 1 1, LINE_TO 2 2] \<and>
   gsk_path_parse glib_integers ''M 0 0 L 1 1, 2 2'' =
     Some [MOVE_TO 0 0, LINE_TO 1 1, LINE_TO 2 2] \<and>
   gsk_path_parse glib_integers ''M 0 0 L 1 1, L 2 2'' = None"
proof -
  let ?G = glib_integers
  let ?z = "example_state [MOVE_TO 0 0, CLOSE] 0 0 '' 5 5'' CHR ''Z''"
  let ?m = "example_state [MOVE_TO 0 0] 0 0 ''1 1'' CHR ''M''"
  let ?l = "example_state [MOVE_TO 0 0, LINE_TO 1 1] 1 1 ''2 2'' CHR ''L''"
  have z: "no_command_letter ?G ?z \<and> ps_cmd ?z \<in> set ''Zz''" by code_simp
  have m: "no_command_letter ?G ?m \<and> ps_cmd ?m \<in> set ''Mm'' \<and>
      parse_iteration ?G ''M 0 0 1 1'' ?m =
        Some (example_state [MOVE_TO 0 0, LINE_TO 1 1] 1 1 [] CHR ''M'')"
    by code_simp
  have l: "CHR ''L'' \<in> set ''hHvVlLcCsStTqQaAeE'' \<and> ps_cmd ?l = CHR ''L'' \<and>
      ps_p ?l = ''2 2'' \<and> skip_whitespace ?G ''2 2'' = ''2 2'' \<and>
      \<not> strchr_checked ''mMhHvVzZlLcCsStTqQaAeE'' (peek ''2 2'') \<and>
      \<not> g_ascii_isspace ?G CHR ''L''"
    by code_simp
  have e: "gsk_path_parse ?G ''M 0 0 Z 5 5'' = None \<and>
      gsk_path_parse ?G ''M 0 0 1 1'' = Some [MOVE_TO 0 0, LINE_TO 1 1] \<and>
      gsk_path_parse ?G ''M 0 0 M 1 1'' = Some [MOVE_TO 0 0, MOVE_TO 1 1] \<and>
      parse_steps ?G ''M 0 0 L 1 1 2 2'' 2 (parser_init ''M 0 0 L 1 1 2 2'') = Some ?l \<and>
      gsk_path_parse ?G ''M 0 0 L 1 1 2 2'' = Some [MOVE_TO 0 0, LINE_TO 1 1, LINE_TO 2 2] \<and>
      gsk_path_parse ?G ''M 0 0 L 1 1 L2 2'' = Some [MOVE_TO 0 0, LINE_TO 1 1, LINE_TO 2 2] \<and>
      gsk_path_parse ?G ''M 0 0 L 1 1, 2 2'' = Some [MOVE_TO 0 0, LINE_TO 1 1, LINE_TO 2 2] \<and>
      gsk_path_parse ?G ''M 0 0 L 1 1, L 2 2'' = None"
    by code_simp
  from command_repeat [of ?G ?m "''M 0 0 1 1''"
      "example_state [MOVE_TO 0 0, LINE_TO 1 1] 1 1 [] CHR ''M''"] m
  have "ps_builder (example_state [MOVE_TO 0 0, LINE_TO 1 1] 1 1 [] CHR ''M'') =
      gsk_path_builder_line_to (ps_builder ?m) 1 1"
    by (simp add: example_state_def)
  with m have mb: "ps_builder (the (parse_iteration ?G ''M 0 0 1 1'' ?m)) =
      [MOVE_TO 0 0, LINE_TO 1 1]"
    by (simp add: example_state_def gsk_path_builder_line_to_def)
  from command_repeat [of ?G ?z "''M 0 0 Z 5 5''"] z
  have 1: "parse_iteration ?G ''M 0 0 Z 5 5'' ?z = None" by blast
  from command_repeat [of ?G ?l _ _ "CHR ''L''" "''2 2''" "''M 0 0 L 1 1 ''"] l
  have 3: "parse_iteration ?G (''M 0 0 L 1 1 '' @ ''2 2'') ?l =
     parse_iteration ?G (''M 0 0 L 1 1 '' @ CHR ''L'' # ''2 2'')
       (?l\<lparr>ps_p := CHR ''L'' # ''2 2'', ps_after_comma := False\<rparr>)"
    by blast
  from z m 1 3 e mb show ?thesis by blast
qed

end
